theory Spec2Isabelle
  imports Main "HOL-Library.Sublist" "HOL-Library.Char_ord" "HOL-Library.List_Lexorder"
    "HOL-Library.Multiset"
begin

section \<open>Text\<close>

text \<open>
  Python strings are modelled as \<open>string\<close>, the UTF-8 bytes of the text. The two
  non-ASCII literals of \<^verbatim>\<open>app.py\<close> are written out as their bytes: the gear sign
  with its variation selector (U+2699 U+FE0F) that \<^verbatim>\<open>log_activity\<close> puts in front of
  every entry, and the arrow (U+2192) of the change descriptions. Concatenation, equality
  and the substring test \<^verbatim>\<open>a in b\<close> agree on code points and on UTF-8 bytes.
\<close>

definition gear :: string where
  "gear = [CHR 0xE2, CHR 0x9A, CHR 0x99, CHR 0xEF, CHR 0xB8, CHR 0x8F]"

definition arrow :: string where
  "arrow = [CHR 0xE2, CHR 0x86, CHR 0x92]"

definition newline :: char where
  "newline = CHR 0x0A"

text \<open>\<^verbatim>\<open>a in b\<close> on strings: \<open>a\<close> occurs in \<open>b\<close> as a contiguous run.\<close>

definition py_in :: "string \<Rightarrow> string \<Rightarrow> bool" where
  "py_in a b = sublist a b"

text \<open>\<^verbatim>\<open>f"{x}"\<close> of a nullable column: \<^verbatim>\<open>None\<close> prints as the word None.\<close>

fun py_str :: "string option \<Rightarrow> string" where
  "py_str None = ''None''"
| "py_str (Some x) = x"

text \<open>\<^verbatim>\<open>sep.join(xs)\<close>.\<close>

fun join :: "string \<Rightarrow> string list \<Rightarrow> string" where
  "join sep [] = []"
| "join sep [x] = x"
| "join sep (x # y # ys) = x @ sep @ join sep (y # ys)"

text \<open>
  \<^verbatim>\<open>s.replace(old, new)\<close> for a non-empty \<open>old\<close> (the only use in the source has the
  constant marker as \<open>old\<close>): every occurrence, left to right, without overlap.
\<close>

function replace :: "string \<Rightarrow> string \<Rightarrow> string \<Rightarrow> string" where
  "replace old new [] = []"
| "replace old new (c # cs) =
     (if old \<noteq> [] \<and> prefix old (c # cs)
      then new @ replace old new (drop (length old) (c # cs))
      else c # replace old new cs)"
  by pat_completeness auto
termination
  by (relation "measure (\<lambda>(old, new, s). length s)") (auto simp: neq_Nil_conv)

text \<open>\<^verbatim>\<open>s.split('\n', 1)[1] if '\n' in s else s\<close>: the text after the first line break.\<close>

definition after_first_line :: "string \<Rightarrow> string" where
  "after_first_line s =
     (case dropWhile (\<lambda>c. c \<noteq> newline) s of [] \<Rightarrow> s | _ # rest \<Rightarrow> rest)"

text \<open>
  \<^verbatim>\<open>str.upper\<close> on ASCII text, for the hexadecimal text of a uuid (line 246): the
  letters a-z become A-Z, every other byte stays.
\<close>

definition upper_char :: "char \<Rightarrow> char" where
  "upper_char c =
     (let n = (of_char c :: nat) in if 97 \<le> n \<and> n \<le> 122 then char_of (n - 32) else c)"

definition upper :: "string \<Rightarrow> string" where
  "upper s = map upper_char s"

text \<open>
  Texts made of the ASCII digits 0-9 only, and the number such a text writes in base
  ten. They serve the sample data below.
\<close>

definition ascii_digit :: "char \<Rightarrow> bool" where
  "ascii_digit c = (let n = (of_char c :: nat) in 48 \<le> n \<and> n \<le> 57)"

definition ascii_digits :: "string \<Rightarrow> bool" where
  "ascii_digits s = (s \<noteq> [] \<and> list_all ascii_digit s)"

definition decimal_value :: "string \<Rightarrow> int" where
  "decimal_value s = foldl (\<lambda>a c. 10 * a + (int (of_char c) - 48)) 0 s"

section \<open>Rows, session and environment\<close>

text \<open>
  A row of table \<^verbatim>\<open>tickets\<close>. Column \<^verbatim>\<open>id\<close> is \<open>t_id\<close> here (\<open>id\<close> is the identity
  function of HOL). Status and priority are text columns, as in the source; nullable
  columns are options.
\<close>

record ticket =
  t_id :: string
  customer_name :: string
  email :: string
  description :: string
  attachment_url :: "string option"
  priority :: string
  category :: string
  status :: string
  assigned_to :: "string option"
  created_at :: nat
  resolved_at :: "string option"
  resolution_summary :: "string option"

text \<open>A row of table \<^verbatim>\<open>ticket_notes\<close>.\<close>

record ticket_note =
  ticket_id :: string
  note_text :: string
  author_email :: "string option"
  note_created_at :: nat

text \<open>One call of \<^verbatim>\<open>send_email(to_email, subject, body)\<close>.\<close>

record mail =
  to_email :: string
  subject :: string
  body :: string

text \<open>\<^verbatim>\<open>st.session_state.user\<close>: the e-mail and \<^verbatim>\<open>user_metadata.get("role")\<close>.\<close>

record user =
  user_email :: string
  role_meta :: "string option"

text \<open>
  The state the program acts on: the two tables, and every call of \<^verbatim>\<open>send_email\<close>
  with the boolean it returned.
\<close>

record portal =
  tickets :: "ticket list"
  ticket_notes :: "ticket_note list"
  mails :: "(mail \<times> bool) list"

text \<open>
  What the outside answers during one user action: \<^verbatim>\<open>datetime.now().isoformat()\<close>, the
  server's clock for the \<^verbatim>\<open>created_at\<close> defaults, whether the SMTP session goes through,
  and \<^verbatim>\<open>str(uuid.uuid4())\<close>.
\<close>

record env =
  now_iso :: string
  server_time :: nat
  smtp_ok :: bool
  uuid4 :: string

datatype py_error = ValueError

text \<open>What the page shows after the action.\<close>

datatype feedback =
    St_success string
  | St_error string
  | St_warning string
  | No_feedback
  | Not_rendered
  | Raised py_error

section \<open>E-mail and activity log\<close>

text \<open>
  \<^verbatim>\<open>send_email\<close> (lines 28-42): every exception of the SMTP session is caught and turned
  into \<^verbatim>\<open>False\<close>; nothing is retried.
\<close>

definition send_email :: "env \<Rightarrow> string \<Rightarrow> string \<Rightarrow> string \<Rightarrow> portal \<Rightarrow> bool \<times> portal" where
  "send_email e to_addr subj msg s =
     (smtp_ok e,
      s\<lparr>mails := mails s @ [(\<lparr>to_email = to_addr, subject = subj, body = msg\<rparr>, smtp_ok e)]\<rparr>)"

text \<open>Role helpers (lines 78-81).\<close>

definition role :: "user option \<Rightarrow> string option" where
  "role session = (case session of None \<Rightarrow> None | Some u \<Rightarrow> role_meta u)"

definition is_admin :: "user option \<Rightarrow> bool" where
  "is_admin session = (role session = Some ''admin'')"

definition is_agent :: "user option \<Rightarrow> bool" where
  "is_agent session = (role session = Some ''agent'')"

definition is_staff :: "user option \<Rightarrow> bool" where
  "is_staff session = (is_admin session \<or> is_agent session)"

text \<open>\<^verbatim>\<open>log_activity\<close> (lines 84-89).\<close>

definition log_activity :: "env \<Rightarrow> user \<Rightarrow> string \<Rightarrow> string \<Rightarrow> portal \<Rightarrow> portal" where
  "log_activity e u tid message s =
     s\<lparr>ticket_notes := ticket_notes s @
        [\<lparr>ticket_id = tid,
          note_text = gear @ '' SYSTEM: '' @ message,
          author_email = Some (user_email u),
          note_created_at = server_time e\<rparr>]\<rparr>"

text \<open>\<^verbatim>\<open>supabase.table("tickets").update(...).eq("id", tid)\<close>: every row with that id.\<close>

definition update_tickets :: "string \<Rightarrow> (ticket \<Rightarrow> ticket) \<Rightarrow> portal \<Rightarrow> portal" where
  "update_tickets tid f s =
     s\<lparr>tickets := map (\<lambda>r. if t_id r = tid then f r else r) (tickets s)\<rparr>"

section \<open>The ticket manager dialog\<close>

text \<open>
  What the staff member has put into the widgets of \<^verbatim>\<open>ticket_popup\<close> when a button is
  pressed: the three select boxes, the resolution text area, the note line and the
  message area of the reply tab. For an actor who is not an admin the assignee widget is
  a disabled text field whose content the code never reads.
\<close>

record widgets =
  status_sel :: string
  priority_sel :: string
  assign_sel :: string
  resolution_text :: string
  new_note :: string
  email_body :: string

datatype button = Close_and_Resolve | Save_Changes | Send_Email

definition status_opts :: "string list" where
  "status_opts = [''New'', ''Open'', ''Deferred'', ''Closed'']"

definition priority_opts :: "string list" where
  "priority_opts = [''Low'', ''Medium'', ''High'']"

text \<open>The options of the admin's assignee box (lines 117-118).\<close>

definition staff_list :: "user \<Rightarrow> portal \<Rightarrow> string list" where
  "staff_list u s =
     sort (remdups
       (List.map_filter
          (\<lambda>r. case assigned_to r of None \<Rightarrow> None
                | Some a \<Rightarrow> if a \<noteq> [] then Some a else None)
          (tickets s)
        @ [''Unassigned'', user_email u]))"

text \<open>
  The values a select box can hand to the code: one of its options. The definitions
  below do not depend on it; it marks the inputs the dialog can really receive.
\<close>

definition selectable :: "user \<Rightarrow> portal \<Rightarrow> widgets \<Rightarrow> bool" where
  "selectable u s w =
     (status_sel w \<in> set status_opts \<and> priority_sel w \<in> set priority_opts \<and>
      (is_admin (Some u) \<longrightarrow> assign_sel w \<in> set (staff_list u s)))"

text \<open>Lines 116-124: the proposed assignee.\<close>

definition new_assign :: "user \<Rightarrow> ticket \<Rightarrow> widgets \<Rightarrow> string option" where
  "new_assign u ticket w =
     (if is_admin (Some u) then Some (assign_sel w) else assigned_to ticket)"

text \<open>Lines 131-147: the body of the button \<^verbatim>\<open>Close & Resolve\<close>.\<close>

definition close_and_resolve ::
  "env \<Rightarrow> user \<Rightarrow> ticket \<Rightarrow> string \<Rightarrow> string option \<Rightarrow> string \<Rightarrow> portal \<Rightarrow> feedback \<times> portal" where
  "close_and_resolve e u ticket new_priority assignee resolution s =
     (if resolution \<noteq> [] then
        let s1 = update_tickets (t_id ticket)
                   (\<lambda>r. r\<lparr>status := ''Closed'', priority := new_priority,
                          assigned_to := assignee, resolved_at := Some (now_iso e),
                          resolution_summary := Some resolution\<rparr>) s;
            s2 = log_activity e u (t_id ticket)
                   (''Ticket Closed. Resolution: '' @ resolution) s1;
            subj = ''Ticket #'' @ t_id ticket @ '' Resolved'';
            msg = ''Hi '' @ customer_name ticket @ '','' @ [newline, newline]
                  @ ''Your ticket is resolved:'' @ [newline] @ resolution
                  @ [newline, newline] @ ''Best,'' @ [newline] @ ''Support Team'';
            s3 = snd (send_email e (email ticket) subj msg s2)
        in (St_success ''Resolved!'', s3)
      else (St_error ''Resolution required.'', s))"

text \<open>Lines 194-197: the change descriptions.\<close>

definition changes ::
  "ticket \<Rightarrow> string \<Rightarrow> string \<Rightarrow> string option \<Rightarrow> string list" where
  "changes ticket new_status new_priority assignee =
     (if new_status \<noteq> status ticket
      then [''Status: '' @ status ticket @ '' '' @ arrow @ '' '' @ new_status] else [])
     @ (if new_priority \<noteq> priority ticket
        then [''Priority: '' @ priority ticket @ '' '' @ arrow @ '' '' @ new_priority] else [])
     @ (if assignee \<noteq> assigned_to ticket
        then [''Assignee: '' @ py_str (assigned_to ticket) @ '' '' @ arrow @ '' ''
              @ py_str assignee] else [])"

text \<open>Lines 192-213: the body of the button \<^verbatim>\<open>Save Changes\<close>.\<close>

definition save_changes ::
  "env \<Rightarrow> user \<Rightarrow> ticket \<Rightarrow> string \<Rightarrow> string \<Rightarrow> string option \<Rightarrow> string \<Rightarrow> portal \<Rightarrow> feedback \<times> portal" where
  "save_changes e u ticket new_status new_priority assignee note s =
     (let chs = changes ticket new_status new_priority assignee;
          s1 = update_tickets (t_id ticket)
                 (\<lambda>r. r\<lparr>status := new_status, priority := new_priority,
                        assigned_to := assignee\<rparr>) s;
          s2 = (if chs \<noteq> []
                then log_activity e u (t_id ticket) (''Updated: '' @ join '', '' chs) s1
                else s1);
          s3 = (if note \<noteq> []
                then s2\<lparr>ticket_notes := ticket_notes s2 @
                       [\<lparr>ticket_id = t_id ticket, note_text = note,
                         author_email = Some (user_email u),
                         note_created_at = server_time e\<rparr>]\<rparr>
                else s2)
      in (St_success ''Updated!'', s3))"

text \<open>Lines 223-229: the body of the button \<^verbatim>\<open>Send Email\<close>.\<close>

definition send_reply :: "env \<Rightarrow> user \<Rightarrow> ticket \<Rightarrow> string \<Rightarrow> portal \<Rightarrow> feedback \<times> portal" where
  "send_reply e u ticket msg s =
     (if msg \<noteq> [] then
        (case send_email e (email ticket) (''Re: Ticket #'' @ t_id ticket) msg s of
           (True, s1) \<Rightarrow>
             (St_success ''Sent!'',
              log_activity e u (t_id ticket)
                (''EMAIL SENT TO CUSTOMER:'' @ [newline] @ msg) s1)
         | (False, s1) \<Rightarrow> (St_error ''Failed.'', s1))
      else (No_feedback, s))"

text \<open>
  \<^verbatim>\<open>ticket_popup\<close> (lines 93-229) for one press of a button. \<^verbatim>\<open>.index(ticket['priority'])\<close>
  of line 113 raises before anything is drawn when the stored priority is none of the
  three options. The closing branch draws only \<^verbatim>\<open>Close & Resolve\<close>, the other branch
  only \<^verbatim>\<open>Save Changes\<close>; the reply tab is drawn in both. The storage calls are taken to
  succeed.
\<close>

definition ticket_popup ::
  "env \<Rightarrow> user \<Rightarrow> ticket \<Rightarrow> widgets \<Rightarrow> button \<Rightarrow> portal \<Rightarrow> feedback \<times> portal" where
  "ticket_popup e u ticket w b s =
     (if priority ticket \<notin> set priority_opts then (Raised ValueError, s)
      else
        let new_status = status_sel w;
            new_priority = priority_sel w;
            assignee = new_assign u ticket w
        in if new_status = ''Closed'' \<and> status ticket \<noteq> ''Closed'' then
             (case b of
                Close_and_Resolve \<Rightarrow>
                  close_and_resolve e u ticket new_priority assignee (resolution_text w) s
              | Save_Changes \<Rightarrow> (Not_rendered, s)
              | Send_Email \<Rightarrow> send_reply e u ticket (email_body w) s)
           else
             (case b of
                Close_and_Resolve \<Rightarrow> (Not_rendered, s)
              | Save_Changes \<Rightarrow>
                  save_changes e u ticket new_status new_priority assignee (new_note w) s
              | Send_Email \<Rightarrow> send_reply e u ticket (email_body w) s))"

section \<open>The activity log as it is drawn\<close>

datatype rendered =
    System_style string
  | Email_style string string
  | User_style string string

datatype kind = SYSTEM | EMAIL_OUT | USER_NOTE

fun kind_of :: "rendered \<Rightarrow> kind" where
  "kind_of (System_style _) = SYSTEM"
| "kind_of (Email_style _ _) = EMAIL_OUT"
| "kind_of (User_style _ _) = USER_NOTE"

text \<open>
  Lines 164-187 for one entry; \<open>fmt\<close> stands for the parsing and formatting of the
  timestamp (lines 168-171).
\<close>

definition render_note :: "(nat \<Rightarrow> string) \<Rightarrow> ticket_note \<Rightarrow> rendered" where
  "render_note fmt n =
     (let author = (case author_email n of None \<Rightarrow> ''Unknown''
                    | Some a \<Rightarrow> if a \<noteq> [] then a else ''Unknown'');
          fmt_time = fmt (note_created_at n)
      in if py_in ''SYSTEM:'' (note_text n) then
           System_style (gear @ '' '' @ fmt_time @ '' - ''
                         @ replace (gear @ '' SYSTEM:'') [] (note_text n))
         else if py_in ''EMAIL SENT'' (note_text n) then
           Email_style (''**Email Out ('' @ fmt_time @ ''):**'')
                       (after_first_line (note_text n))
         else
           User_style (''**'' @ author @ ''** ('' @ fmt_time @ ''):'') (note_text n))"

text \<open>Line 160 and the loop of line 164: the entries of one ticket, newest first.\<close>

definition activity_log :: "(nat \<Rightarrow> string) \<Rightarrow> ticket \<Rightarrow> portal \<Rightarrow> rendered list" where
  "activity_log fmt ticket s =
     map (render_note fmt)
       (rev (sort_key note_created_at
          (filter (\<lambda>n. ticket_id n = t_id ticket) (ticket_notes s))))"

section \<open>Pages\<close>

text \<open>Lines 232-233.\<close>

definition menu :: "user option \<Rightarrow> string list" where
  "menu session =
     [''New Ticket'', ''Track Ticket''] @ (if is_staff session then [''Staff Dashboard''] else [])"

text \<open>
  Lines 245-252: the submit button of \<^verbatim>\<open>New Ticket\<close>. The columns the insert leaves out
  take the table's defaults: null, and the server's clock for \<^verbatim>\<open>created_at\<close>.
\<close>

definition new_ticket ::
  "env \<Rightarrow> string \<Rightarrow> string \<Rightarrow> string \<Rightarrow> string \<Rightarrow> string \<Rightarrow> portal \<Rightarrow> feedback \<times> portal" where
  "new_ticket e name em cat pri msg s =
     (let tid = upper (take 8 (uuid4 e));
          s1 = s\<lparr>tickets := tickets s @
                 [\<lparr>t_id = tid, customer_name = name, email = em, description = msg,
                   attachment_url = None, priority = pri, category = cat,
                   status = ''New'', assigned_to = None, created_at = server_time e,
                   resolved_at = None, resolution_summary = None\<rparr>]\<rparr>;
          s2 = snd (send_email e em (''Ticket #'' @ tid) ''Received.'' s1)
      in (St_success (''Created #'' @ tid), s2))"

text \<open>
  The built-ins of Python that the tracking form applies to the text typed as id:
  \<^verbatim>\<open>str.upper\<close>, \<^verbatim>\<open>str.isdigit\<close> and \<^verbatim>\<open>int\<close>, the last giving \<open>None\<close> where it raises
  \<^verbatim>\<open>ValueError\<close>. They belong to the language, not to the program, and depend on the
  Unicode tables and on the interpreter's limit on the digits of an integer, so the form
  is modelled for any behaviour of them.
\<close>

record builtins =
  str_upper :: "string \<Rightarrow> string"
  str_isdigit :: "string \<Rightarrow> bool"
  str_int :: "string \<Rightarrow> int option"

text \<open>
  Lines 262-274: the check button of \<^verbatim>\<open>Track Ticket\<close>. The server-side function
  \<^verbatim>\<open>public_track_ticket\<close> is not part of the program: it is the parameter \<open>rpc\<close>, giving
  the status and the resolution summary of each row it returns. The second component
  lists the calls made to it. \<^verbatim>\<open>int(tid)\<close> of line 268 is inside no \<^verbatim>\<open>try\<close>: when it
  raises, the page ends with the exception and no call is made.
\<close>

datatype track_view =
    Track_error string
  | Track_warning string
  | Track_shown string "string option"
  | Track_raised py_error

definition track_ticket ::
  "builtins \<Rightarrow> (int \<Rightarrow> string \<Rightarrow> (string \<times> string option) list) \<Rightarrow> string \<Rightarrow> string
     \<Rightarrow> track_view \<times> (int \<times> string) list" where
  "track_ticket py rpc id_input tem =
     (let tid = str_upper py id_input in
      if tid = [] \<or> tem = [] then
        (Track_error ''Please enter both Ticket ID and Email.'', [])
      else if \<not> str_isdigit py tid then
        (Track_error ''Ticket ID must be a number.'', [])
      else
        (case str_int py tid of
           None \<Rightarrow> (Track_raised ValueError, [])
         | Some ticket_id_arg \<Rightarrow>
             (case rpc ticket_id_arg tem of
                [] \<Rightarrow> (Track_warning ''No ticket found for that ID and email.'',
                       [(ticket_id_arg, tem)])
              | t # _ \<Rightarrow>
                  (Track_shown (''**Status:** '' @ fst t)
                     (case snd t of None \<Rightarrow> None
                      | Some r \<Rightarrow> if r \<noteq> [] then Some (''Resolution: '' @ r) else None),
                   [(ticket_id_arg, tem)]))))"

text \<open>
  Lines 278-282: the query of \<^verbatim>\<open>Staff Dashboard\<close>. The filter
  \<^verbatim>\<open>assigned_to.is.null,assigned_to.eq.<email>\<close> under \<^verbatim>\<open>or_\<close> and the descending order
  are given their meaning in the query interface; rows with equal \<^verbatim>\<open>created_at\<close> may
  come in any order there, here in the reverse of their stored order.
\<close>

definition ticket_query :: "user option \<Rightarrow> ticket list \<Rightarrow> ticket list" where
  "ticket_query session rows =
     (case session of
        Some u \<Rightarrow>
          if is_agent session
          then filter (\<lambda>r. assigned_to r = None \<or> assigned_to r = Some (user_email u)) rows
          else rows
      | None \<Rightarrow> rows)"

definition staff_dashboard :: "user option \<Rightarrow> portal \<Rightarrow> ticket list" where
  "staff_dashboard session s = rev (sort_key created_at (ticket_query session (tickets s)))"

section \<open>Runs of the portal\<close>

text \<open>
  One user action: a visitor submits the form of \<^verbatim>\<open>New Ticket\<close>, or a signed-in staff
  member selects row \<open>idx\<close> of the dashboard table (lines 301-304) and presses a button
  of the dialog. An action the pages do not offer gives \<open>None\<close>.
\<close>

datatype action =
    Submit string string string string string
  | Manage user nat widgets button

fun step :: "env \<Rightarrow> action \<Rightarrow> portal \<Rightarrow> portal option" where
  "step e (Submit name em cat pri msg) s =
     (if pri \<in> set priority_opts then Some (snd (new_ticket e name em cat pri msg s)) else None)"
| "step e (Manage u idx w b) s =
     (let rows = staff_dashboard (Some u) s in
      if is_staff (Some u) \<and> idx < length rows \<and> selectable u s w
      then Some (snd (ticket_popup e u (rows ! idx) w b s)) else None)"

fun run :: "(env \<times> action) list \<Rightarrow> portal \<Rightarrow> portal option" where
  "run [] s = Some s"
| "run ((e, a) # rest) s = (case step e a s of None \<Rightarrow> None | Some s' \<Rightarrow> run rest s')"

definition empty_portal :: portal where
  "empty_portal = \<lparr>tickets = [], ticket_notes = [], mails = []\<rparr>"

text \<open>The ids the submissions of a run give to their tickets (line 246).\<close>

fun new_ids :: "(env \<times> action) list \<Rightarrow> string list" where
  "new_ids [] = []"
| "new_ids ((e, Submit _ _ _ _ _) # rest) = upper (take 8 (uuid4 e)) # new_ids rest"
| "new_ids ((e, Manage _ _ _ _) # rest) = new_ids rest"

section \<open>Properties named by the specification\<close>

text \<open>
  A ticket is resolved when its resolution summary is present and not the empty text
  and its resolution timestamp is set.
\<close>

definition resolved :: "ticket \<Rightarrow> bool" where
  "resolved t =
     (resolution_summary t \<noteq> None \<and> resolution_summary t \<noteq> Some [] \<and> resolved_at t \<noteq> None)"

text \<open>The invariant of the data model, in the specification's words, for one ticket.\<close>

definition closed_iff_resolved :: "ticket \<Rightarrow> bool" where
  "closed_iff_resolved t = ((status t = ''Closed'') = resolved t)"

text \<open>
  A delivery failure is reported to the caller when what the page shows after the
  action is an error or a warning.
\<close>

fun reports_failure :: "feedback \<Rightarrow> bool" where
  "reports_failure (St_error _) = True"
| "reports_failure (St_warning _) = True"
| "reports_failure _ = False"

text \<open>The kinds of a list of entries, each as the log draws it.\<close>

definition kinds :: "(nat \<Rightarrow> string) \<Rightarrow> ticket_note list \<Rightarrow> kind list" where
  "kinds fmt ns = map (\<lambda>n. kind_of (render_note fmt n)) ns"

text \<open>The entries an action has appended to the activity log of state \<open>s\<close>.\<close>

definition appended :: "portal \<Rightarrow> portal \<Rightarrow> ticket_note list" where
  "appended s s' = drop (length (ticket_notes s)) (ticket_notes s')"

section \<open>Sample data\<close>

definition agent :: user where
  "agent = \<lparr>user_email = ''agent@example.com'', role_meta = Some ''agent''\<rparr>"

definition boss :: user where
  "boss = \<lparr>user_email = ''boss@example.com'', role_meta = Some ''admin''\<rparr>"

definition env_up :: env where
  "env_up = \<lparr>now_iso = ''2024-05-01T10:00:00'', server_time = 7, smtp_ok = True,
              uuid4 = ''1a2b3c4d-0000-4000-8000-000000000000''\<rparr>"

definition env_down :: env where
  "env_down = env_up\<lparr>smtp_ok := False\<rparr>"

definition ticket1 :: ticket where
  "ticket1 = \<lparr>t_id = ''1A2B3C4D'', customer_name = ''Ann'', email = ''a@x.com'',
               description = ''help'', attachment_url = None, priority = ''Medium'',
               category = ''Data'', status = ''New'', assigned_to = None, created_at = 7,
               resolved_at = None, resolution_summary = None\<rparr>"

definition ticket2 :: ticket where
  "ticket2 = ticket1\<lparr>t_id := ''99FF00AA'', assigned_to := Some ''other@example.com'',
                     created_at := 9\<rparr>"

definition ticket1_closed :: ticket where
  "ticket1_closed = ticket1\<lparr>status := ''Closed'', resolved_at := Some ''2024-05-01T10:00:00'',
                            resolution_summary := Some ''fixed''\<rparr>"

definition ticket1_reopened :: ticket where
  "ticket1_reopened = ticket1_closed\<lparr>status := ''Open''\<rparr>"

definition portal1 :: portal where
  "portal1 = \<lparr>tickets = [ticket1], ticket_notes = [], mails = []\<rparr>"

definition portal2 :: portal where
  "portal2 = \<lparr>tickets = [ticket1, ticket2], ticket_notes = [], mails = []\<rparr>"

definition blank :: widgets where
  "blank = \<lparr>status_sel = ''New'', priority_sel = ''Medium'', assign_sel = [],
             resolution_text = [], new_note = [], email_body = []\<rparr>"

definition no_time :: "nat \<Rightarrow> string" where
  "no_time t = []"

text \<open>
  The superscript two (U+00B2) in UTF-8, and the built-ins as CPython answers on the
  texts of the examples below, which are ASCII texts and the superscript two:
  \<^verbatim>\<open>str.isdigit\<close> holds of the superscript two and \<^verbatim>\<open>int\<close> raises on it; on ASCII
  digits \<^verbatim>\<open>int\<close> gives the number, up to the default limit of 4300 digits.
\<close>

definition superscript_two :: string where
  "superscript_two = [CHR 0xC2, CHR 0xB2]"

definition sample_builtins :: builtins where
  "sample_builtins =
     \<lparr>str_upper = upper,
      str_isdigit = (\<lambda>s. ascii_digits s \<or> s = superscript_two),
      str_int = (\<lambda>s. if ascii_digits s \<and> length s \<le> 4300
                      then Some (decimal_value s) else None)\<rparr>"

text \<open>A lookup function that knows one ticket, number 42 of \<^verbatim>\<open>a@x.com\<close>.\<close>

definition demo_lookup :: "int \<Rightarrow> string \<Rightarrow> (string \<times> string option) list" where
  "demo_lookup i em = (if i = 42 \<and> em = ''a@x.com'' then [(''New'', None)] else [])"

definition submit_ann :: action where
  "submit_ann = Submit ''Ann'' ''a@x.com'' ''Data'' ''Medium'' ''help''"

definition reopen_run :: "(env \<times> action) list" where
  "reopen_run =
     [(env_up, submit_ann),
      (env_up, Manage agent 0 (blank\<lparr>status_sel := ''Closed'', resolution_text := ''fixed''\<rparr>)
                 Close_and_Resolve),
      (env_up, Manage agent 0 (blank\<lparr>status_sel := ''Open''\<rparr>) Save_Changes)]"

definition close_run :: "(env \<times> action) list" where
  "close_run = take 2 reopen_run"

section \<open>Closing needs a resolution\<close>

text \<open>
  C2. When the stored status is not Closed, the status box says Closed and the resolution
  text is empty, pressing \<^verbatim>\<open>Close & Resolve\<close> shows the error "Resolution required."
  and leaves the whole state as it was: no row of \<^verbatim>\<open>tickets\<close> changes, no entry is
  added to the activity log and \<^verbatim>\<open>send_email\<close> is not called. The dialog must have
  opened, which it does when the stored priority is one of the three options.
\<close>

theorem closing_without_resolution_aborts:
  assumes "status ticket \<noteq> ''Closed''" and "status_sel w = ''Closed''"
    and "resolution_text w = []" and "priority ticket \<in> set priority_opts"
  shows "ticket_popup e u ticket w Close_and_Resolve s = (St_error ''Resolution required.'', s)"
  using assms by (simp add: ticket_popup_def close_and_resolve_def Let_def)

theorem closing_without_resolution_aborts_witness:
  "status ticket1 \<noteq> ''Closed'' \<and> status_sel (blank\<lparr>status_sel := ''Closed''\<rparr>) = ''Closed''
   \<and> resolution_text (blank\<lparr>status_sel := ''Closed''\<rparr>) = []
   \<and> priority ticket1 \<in> set priority_opts
   \<and> ticket_popup env_up agent ticket1 (blank\<lparr>status_sel := ''Closed''\<rparr>) Close_and_Resolve portal1
       = (St_error ''Resolution required.'', portal1)"
proof -
  have a: "status ticket1 \<noteq> ''Closed''" by (simp add: ticket1_def)
  have b: "status_sel (blank\<lparr>status_sel := ''Closed''\<rparr>) = ''Closed''" by simp
  have c: "resolution_text (blank\<lparr>status_sel := ''Closed''\<rparr>) = []" by (simp add: blank_def)
  have d: "priority ticket1 \<in> set priority_opts" by (simp add: ticket1_def priority_opts_def)
  show ?thesis
    using a b c d closing_without_resolution_aborts [OF a b c d, of env_up agent portal1]
    by simp
qed

section \<open>Effects of the parts of the dialog\<close>

lemma tickets_log_activity: "tickets (log_activity e u tid m s) = tickets s"
  and mails_log_activity: "mails (log_activity e u tid m s) = mails s"
  and notes_log_activity: "ticket_notes (log_activity e u tid m s) =
     ticket_notes s @ [\<lparr>ticket_id = tid, note_text = gear @ '' SYSTEM: '' @ m,
        author_email = Some (user_email u), note_created_at = server_time e\<rparr>]"
  by (simp_all add: log_activity_def)

lemma tickets_send_email: "tickets (snd (send_email e a b c s)) = tickets s"
  and notes_send_email: "ticket_notes (snd (send_email e a b c s)) = ticket_notes s"
  and mails_send_email: "mails (snd (send_email e a b c s)) =
     mails s @ [(\<lparr>to_email = a, subject = b, body = c\<rparr>, smtp_ok e)]"
  and fst_send_email: "fst (send_email e a b c s) = smtp_ok e"
  by (simp_all add: send_email_def)

lemma tickets_update: "tickets (update_tickets tid f s) =
     map (\<lambda>r. if t_id r = tid then f r else r) (tickets s)"
  and notes_update: "ticket_notes (update_tickets tid f s) = ticket_notes s"
  and mails_update: "mails (update_tickets tid f s) = mails s"
  by (simp_all add: update_tickets_def)

lemmas effects = tickets_log_activity mails_log_activity notes_log_activity
  tickets_send_email notes_send_email mails_send_email fst_send_email
  tickets_update notes_update mails_update

lemma close_and_resolve_effects:
  assumes "res \<noteq> []"
  shows "fst (close_and_resolve e u t p a res s) = St_success ''Resolved!''"
    and "tickets (snd (close_and_resolve e u t p a res s)) =
         map (\<lambda>r. if t_id r = t_id t
                   then r\<lparr>status := ''Closed'', priority := p, assigned_to := a,
                          resolved_at := Some (now_iso e), resolution_summary := Some res\<rparr>
                   else r) (tickets s)"
    and "ticket_notes (snd (close_and_resolve e u t p a res s)) =
         ticket_notes s @
           [\<lparr>ticket_id = t_id t,
             note_text = gear @ '' SYSTEM: '' @ ''Ticket Closed. Resolution: '' @ res,
             author_email = Some (user_email u), note_created_at = server_time e\<rparr>]"
    and "mails (snd (close_and_resolve e u t p a res s)) =
         mails s @
           [(\<lparr>to_email = email t, subject = ''Ticket #'' @ t_id t @ '' Resolved'',
              body = ''Hi '' @ customer_name t @ '','' @ [newline, newline]
                     @ ''Your ticket is resolved:'' @ [newline] @ res
                     @ [newline, newline] @ ''Best,'' @ [newline] @ ''Support Team''\<rparr>,
             smtp_ok e)]"
  using assms by (simp_all add: close_and_resolve_def Let_def effects)

lemma popup_close:
  assumes "status t \<noteq> ''Closed''" "status_sel w = ''Closed''" "priority t \<in> set priority_opts"
  shows "ticket_popup e u t w Close_and_Resolve s =
         close_and_resolve e u t (priority_sel w) (new_assign u t w) (resolution_text w) s"
  using assms by (simp add: ticket_popup_def Let_def)

lemma popup_save:
  assumes "\<not> (status_sel w = ''Closed'' \<and> status t \<noteq> ''Closed'')" "priority t \<in> set priority_opts"
  shows "ticket_popup e u t w Save_Changes s =
         save_changes e u t (status_sel w) (priority_sel w) (new_assign u t w) (new_note w) s"
  using assms by (auto simp add: ticket_popup_def Let_def)

lemma popup_send:
  assumes "priority t \<in> set priority_opts"
  shows "ticket_popup e u t w Send_Email s = send_reply e u t (email_body w) s"
  using assms by (simp add: ticket_popup_def Let_def)

lemma marker_in_text: "py_in m (a @ m @ b)"
  unfolding py_in_def sublist_def by blast

lemma marker_in_log_text: "py_in ''SYSTEM:'' (gear @ '' SYSTEM: '' @ m)"
proof -
  have "gear @ '' SYSTEM: '' @ m = (gear @ '' '') @ ''SYSTEM:'' @ ('' '' @ m)" by simp
  then show ?thesis unfolding py_in_def sublist_def by blast
qed

lemma kind_of_render:
  "kind_of (render_note fmt n) =
     (if py_in ''SYSTEM:'' (note_text n) then SYSTEM
      else if py_in ''EMAIL SENT'' (note_text n) then EMAIL_OUT else USER_NOTE)"
  by (simp add: render_note_def Let_def)

lemma join_concat: "join sep (x # rest) = x @ concat (map (\<lambda>y. sep @ y) rest)"
  by (induction rest arbitrary: x) simp_all

section \<open>Closing when the e-mail is not delivered\<close>

text \<open>
  C3, as amended. On a closing transition with a non-empty resolution whose e-mail is not
  delivered, every row with the ticket's id is stored as Closed with the resolution
  timestamp and summary set, the entry "Ticket Closed. Resolution: ..." is appended to
  the activity log, \<^verbatim>\<open>send_email\<close> has been called exactly once (no retry) and nothing
  is undone. The page shows the success message "Resolved!": the boolean of
  \<^verbatim>\<open>send_email\<close> is dropped (line 144), so the failure is not shown to the caller.
\<close>

theorem close_survives_delivery_failure:
  assumes "status ticket \<noteq> ''Closed''" and "status_sel w = ''Closed''"
    and "resolution_text w \<noteq> []" and "priority ticket \<in> set priority_opts"
    and "\<not> smtp_ok e"
  shows "fst (ticket_popup e u ticket w Close_and_Resolve s) = St_success ''Resolved!''
    \<and> tickets (snd (ticket_popup e u ticket w Close_and_Resolve s)) =
        map (\<lambda>r. if t_id r = t_id ticket
                  then r\<lparr>status := ''Closed'', priority := priority_sel w,
                         assigned_to := new_assign u ticket w,
                         resolved_at := Some (now_iso e),
                         resolution_summary := Some (resolution_text w)\<rparr>
                  else r) (tickets s)
    \<and> ticket_notes (snd (ticket_popup e u ticket w Close_and_Resolve s)) =
        ticket_notes s @
          [\<lparr>ticket_id = t_id ticket,
            note_text = gear @ '' SYSTEM: '' @ ''Ticket Closed. Resolution: '' @ resolution_text w,
            author_email = Some (user_email u), note_created_at = server_time e\<rparr>]
    \<and> mails (snd (ticket_popup e u ticket w Close_and_Resolve s)) =
        mails s @
          [(\<lparr>to_email = email ticket, subject = ''Ticket #'' @ t_id ticket @ '' Resolved'',
             body = ''Hi '' @ customer_name ticket @ '','' @ [newline, newline]
                    @ ''Your ticket is resolved:'' @ [newline] @ resolution_text w
                    @ [newline, newline] @ ''Best,'' @ [newline] @ ''Support Team''\<rparr>,
            False)]
    \<and> list_all (\<lambda>r. t_id r \<noteq> t_id ticket \<or> (status r = ''Closed'' \<and> resolved r))
        (tickets (snd (ticket_popup e u ticket w Close_and_Resolve s)))"
proof -
  note c = close_and_resolve_effects [OF assms(3)]
  have p: "ticket_popup e u ticket w Close_and_Resolve s =
      close_and_resolve e u ticket (priority_sel w) (new_assign u ticket w) (resolution_text w) s"
    by (rule popup_close [OF assms(1,2,4)])
  have "list_all (\<lambda>r. t_id r \<noteq> t_id ticket \<or> (status r = ''Closed'' \<and> resolved r))
        (tickets (snd (ticket_popup e u ticket w Close_and_Resolve s)))"
    unfolding p c(2) using assms(3) by (auto simp add: list_all_iff resolved_def)
  then show ?thesis
    unfolding p using assms(5) by (simp add: c)
qed


lemmas sample_defs = agent_def boss_def env_up_def env_down_def ticket1_def ticket2_def
  portal1_def portal2_def blank_def no_time_def submit_ann_def reopen_run_def close_run_def

theorem close_survives_delivery_failure_witness:
  "status ticket1 \<noteq> ''Closed''
   \<and> status_sel (blank\<lparr>status_sel := ''Closed'', resolution_text := ''fixed''\<rparr>) = ''Closed''
   \<and> resolution_text (blank\<lparr>status_sel := ''Closed'', resolution_text := ''fixed''\<rparr>) \<noteq> []
   \<and> priority ticket1 \<in> set priority_opts \<and> \<not> smtp_ok env_down
   \<and> fst (ticket_popup env_down agent ticket1
        (blank\<lparr>status_sel := ''Closed'', resolution_text := ''fixed''\<rparr>) Close_and_Resolve portal1)
       = St_success ''Resolved!''
   \<and> map status (tickets (snd (ticket_popup env_down agent ticket1
        (blank\<lparr>status_sel := ''Closed'', resolution_text := ''fixed''\<rparr>) Close_and_Resolve portal1)))
       = [''Closed'']
   \<and> map snd (mails (snd (ticket_popup env_down agent ticket1
        (blank\<lparr>status_sel := ''Closed'', resolution_text := ''fixed''\<rparr>) Close_and_Resolve portal1)))
       = [False]"
proof -
  let ?w = "blank\<lparr>status_sel := ''Closed'', resolution_text := ''fixed''\<rparr>"
  have a: "status ticket1 \<noteq> ''Closed''" by (simp add: ticket1_def)
  have b: "status_sel ?w = ''Closed''" by simp
  have c: "resolution_text ?w \<noteq> []" by simp
  have d: "priority ticket1 \<in> set priority_opts" by (simp add: ticket1_def priority_opts_def)
  have f: "\<not> smtp_ok env_down" by (simp add: env_down_def)
  have t: "tickets portal1 = [ticket1]" and m: "mails portal1 = []" by (simp_all add: portal1_def)
  show ?thesis
    using a b c d f close_survives_delivery_failure [OF a b c d f, of agent portal1]
    by (simp add: t m)
qed

text \<open>
  C3 as the specification states it asks for the failure to be reported to the caller.
  With the SMTP session failing, the close of a sample ticket shows the same feedback as
  with the session succeeding, and that feedback is no error and no warning.
\<close>

theorem delivery_failure_not_reported:
  "\<not> smtp_ok env_down
   \<and> map snd (mails (snd (ticket_popup env_down agent ticket1
        (blank\<lparr>status_sel := ''Closed'', resolution_text := ''fixed''\<rparr>) Close_and_Resolve portal1)))
       = [False]
   \<and> fst (ticket_popup env_down agent ticket1
        (blank\<lparr>status_sel := ''Closed'', resolution_text := ''fixed''\<rparr>) Close_and_Resolve portal1)
       = fst (ticket_popup env_up agent ticket1
        (blank\<lparr>status_sel := ''Closed'', resolution_text := ''fixed''\<rparr>) Close_and_Resolve portal1)
   \<and> \<not> reports_failure (fst (ticket_popup env_down agent ticket1
        (blank\<lparr>status_sel := ''Closed'', resolution_text := ''fixed''\<rparr>) Close_and_Resolve portal1))"
  by (simp add: ticket_popup_def close_and_resolve_def Let_def effects sample_defs
      priority_opts_def)


lemma save_changes_effects:
  "fst (save_changes e u t ns np a n s) = St_success ''Updated!''"
  "tickets (snd (save_changes e u t ns np a n s)) =
     map (\<lambda>r. if t_id r = t_id t
               then r\<lparr>status := ns, priority := np, assigned_to := a\<rparr> else r) (tickets s)"
  "ticket_notes (snd (save_changes e u t ns np a n s)) =
     ticket_notes s
     @ (if changes t ns np a \<noteq> []
        then [\<lparr>ticket_id = t_id t,
               note_text = gear @ '' SYSTEM: '' @ ''Updated: '' @ join '', '' (changes t ns np a),
               author_email = Some (user_email u), note_created_at = server_time e\<rparr>]
        else [])
     @ (if n \<noteq> []
        then [\<lparr>ticket_id = t_id t, note_text = n, author_email = Some (user_email u),
               note_created_at = server_time e\<rparr>]
        else [])"
  "mails (snd (save_changes e u t ns np a n s)) = mails s"
  by (simp_all add: save_changes_def Let_def effects)

section \<open>The standard edit\<close>

text \<open>
  C4, as amended. On a standard edit (every press of \<^verbatim>\<open>Save Changes\<close>: the status box
  does not ask for a closing transition) the change descriptions are those of status,
  priority and assignee, in this order, each present exactly when the proposed value
  differs from the one of the ticket, each of the form "<field>: <old> -> <new>" with
  the arrow U+2192 and a null assignee printed as None; the rows with the ticket's id
  are updated whether or not anything changed; one entry whose text is the gear,
  " SYSTEM: Updated: " and the descriptions, a comma and a blank between them, is
  appended exactly when there is a description; after it one entry with the note's text
  as typed and the acting staff member as author is appended exactly when the note is
  not empty; no e-mail is sent. The first of these entries is drawn as a SYSTEM entry.
  The entry of the note is drawn as a user note only when its text contains neither
  "SYSTEM:" nor "EMAIL SENT": with the first marker it is drawn as a SYSTEM entry,
  otherwise with the second as an outgoing e-mail.
\<close>

theorem standard_edit_effects:
  assumes "\<not> (status_sel w = ''Closed'' \<and> status ticket \<noteq> ''Closed'')"
    and "priority ticket \<in> set priority_opts"
  shows "changes ticket (status_sel w) (priority_sel w) (new_assign u ticket w) =
      map snd (filter fst
        [(status_sel w \<noteq> status ticket,
          ''Status: '' @ status ticket @ '' '' @ arrow @ '' '' @ status_sel w),
         (priority_sel w \<noteq> priority ticket,
          ''Priority: '' @ priority ticket @ '' '' @ arrow @ '' '' @ priority_sel w),
         (new_assign u ticket w \<noteq> assigned_to ticket,
          ''Assignee: '' @ (case assigned_to ticket of None \<Rightarrow> ''None'' | Some a \<Rightarrow> a)
            @ '' '' @ arrow @ '' ''
            @ (case new_assign u ticket w of None \<Rightarrow> ''None'' | Some a \<Rightarrow> a))])
    \<and> fst (ticket_popup e u ticket w Save_Changes s) = St_success ''Updated!''
    \<and> tickets (snd (ticket_popup e u ticket w Save_Changes s)) =
        map (\<lambda>r. if t_id r = t_id ticket
                  then r\<lparr>status := status_sel w, priority := priority_sel w,
                         assigned_to := new_assign u ticket w\<rparr>
                  else r) (tickets s)
    \<and> ticket_notes (snd (ticket_popup e u ticket w Save_Changes s)) =
        ticket_notes s
        @ (case changes ticket (status_sel w) (priority_sel w) (new_assign u ticket w) of
             [] \<Rightarrow> []
           | d # ds \<Rightarrow>
               [\<lparr>ticket_id = t_id ticket,
                 note_text = gear @ '' SYSTEM: Updated: '' @ d
                             @ concat (map (\<lambda>x. '', '' @ x) ds),
                 author_email = Some (user_email u), note_created_at = server_time e\<rparr>])
        @ (if new_note w \<noteq> []
           then [\<lparr>ticket_id = t_id ticket, note_text = new_note w,
                  author_email = Some (user_email u), note_created_at = server_time e\<rparr>]
           else [])
    \<and> mails (snd (ticket_popup e u ticket w Save_Changes s)) = mails s
    \<and> kinds fmt (appended s (snd (ticket_popup e u ticket w Save_Changes s))) =
        (if changes ticket (status_sel w) (priority_sel w) (new_assign u ticket w) \<noteq> []
         then [SYSTEM] else [])
        @ (if new_note w \<noteq> []
           then [if py_in ''SYSTEM:'' (new_note w) then SYSTEM
                 else if py_in ''EMAIL SENT'' (new_note w) then EMAIL_OUT else USER_NOTE]
           else [])"
proof -
  let ?chs = "changes ticket (status_sel w) (priority_sel w) (new_assign u ticket w)"
  have p: "ticket_popup e u ticket w Save_Changes s =
      save_changes e u ticket (status_sel w) (priority_sel w) (new_assign u ticket w) (new_note w) s"
    by (rule popup_save [OF assms])
  have s: "py_str x = (case x of None \<Rightarrow> ''None'' | Some a \<Rightarrow> a)" for x
    by (cases x) simp_all
  have c: "?chs =
      map snd (filter fst
        [(status_sel w \<noteq> status ticket,
          ''Status: '' @ status ticket @ '' '' @ arrow @ '' '' @ status_sel w),
         (priority_sel w \<noteq> priority ticket,
          ''Priority: '' @ priority ticket @ '' '' @ arrow @ '' '' @ priority_sel w),
         (new_assign u ticket w \<noteq> assigned_to ticket,
          ''Assignee: '' @ (case assigned_to ticket of None \<Rightarrow> ''None'' | Some a \<Rightarrow> a)
            @ '' '' @ arrow @ '' ''
            @ (case new_assign u ticket w of None \<Rightarrow> ''None'' | Some a \<Rightarrow> a))])"
    unfolding changes_def s by simp
  have n: "ticket_notes (snd (ticket_popup e u ticket w Save_Changes s)) =
        ticket_notes s
        @ (case ?chs of
             [] \<Rightarrow> []
           | d # ds \<Rightarrow>
               [\<lparr>ticket_id = t_id ticket,
                 note_text = gear @ '' SYSTEM: Updated: '' @ d
                             @ concat (map (\<lambda>x. '', '' @ x) ds),
                 author_email = Some (user_email u), note_created_at = server_time e\<rparr>])
        @ (if new_note w \<noteq> []
           then [\<lparr>ticket_id = t_id ticket, note_text = new_note w,
                  author_email = Some (user_email u), note_created_at = server_time e\<rparr>]
           else [])"
  proof -
    have ap: "((@) '', '') = (\<lambda>y. CHR '','' # CHR '' '' # y)" by (rule ext) simp
    show ?thesis
      unfolding p save_changes_effects by (cases ?chs) (simp_all add: join_concat ap)
  qed
  have m: "py_in ''SYSTEM:'' (gear @ '' SYSTEM: Updated: '' @ x)" for x
    using marker_in_log_text [of "''Updated: '' @ x"] by simp
  have k: "kinds fmt (appended s (snd (ticket_popup e u ticket w Save_Changes s))) =
        (if ?chs \<noteq> [] then [SYSTEM] else [])
        @ (if new_note w \<noteq> []
           then [if py_in ''SYSTEM:'' (new_note w) then SYSTEM
                 else if py_in ''EMAIL SENT'' (new_note w) then EMAIL_OUT else USER_NOTE]
           else [])"
    unfolding appended_def n kinds_def
    using m by (cases ?chs) (simp_all add: kind_of_render)
  have r: "fst (ticket_popup e u ticket w Save_Changes s) = St_success ''Updated!''"
    "tickets (snd (ticket_popup e u ticket w Save_Changes s)) =
        map (\<lambda>r. if t_id r = t_id ticket
                  then r\<lparr>status := status_sel w, priority := priority_sel w,
                         assigned_to := new_assign u ticket w\<rparr>
                  else r) (tickets s)"
    "mails (snd (ticket_popup e u ticket w Save_Changes s)) = mails s"
    unfolding p by (simp_all add: save_changes_effects)
  from c n k r show ?thesis by blast
qed

lemma sample_boss: "is_admin (Some boss)"
  by (simp add: is_admin_def role_def boss_def)

lemma sample_texts:
  "\<not> py_in ''SYSTEM:'' ''called customer''" "\<not> py_in ''EMAIL SENT'' ''called customer''"
  "py_in ''SYSTEM:'' ''SYSTEM: rebooted''"
  unfolding py_in_def by code_simp+

theorem standard_edit_effects_witness:
  "\<not> (status_sel (blank\<lparr>status_sel := ''Open'', priority_sel := ''High'',
          assign_sel := ''Unassigned'', new_note := ''called customer''\<rparr>) = ''Closed''
        \<and> status ticket1 \<noteq> ''Closed'')
   \<and> priority ticket1 \<in> set priority_opts
   \<and> tickets (snd (ticket_popup env_up boss ticket1
        (blank\<lparr>status_sel := ''Open'', priority_sel := ''High'',
          assign_sel := ''Unassigned'', new_note := ''called customer''\<rparr>) Save_Changes portal1))
      = [ticket1\<lparr>status := ''Open'', priority := ''High'', assigned_to := Some ''Unassigned''\<rparr>]
   \<and> ticket_notes (snd (ticket_popup env_up boss ticket1
        (blank\<lparr>status_sel := ''Open'', priority_sel := ''High'',
          assign_sel := ''Unassigned'', new_note := ''called customer''\<rparr>) Save_Changes portal1))
      = [\<lparr>ticket_id = ''1A2B3C4D'',
          note_text = [CHR 0xE2, CHR 0x9A, CHR 0x99, CHR 0xEF, CHR 0xB8, CHR 0x8F]
            @ '' SYSTEM: Updated: Status: New '' @ [CHR 0xE2, CHR 0x86, CHR 0x92]
            @ '' Open, Priority: Medium '' @ [CHR 0xE2, CHR 0x86, CHR 0x92]
            @ '' High, Assignee: None '' @ [CHR 0xE2, CHR 0x86, CHR 0x92] @ '' Unassigned'',
          author_email = Some ''boss@example.com'', note_created_at = 7\<rparr>,
         \<lparr>ticket_id = ''1A2B3C4D'', note_text = ''called customer'',
          author_email = Some ''boss@example.com'', note_created_at = 7\<rparr>]
   \<and> kinds no_time (appended portal1 (snd (ticket_popup env_up boss ticket1
        (blank\<lparr>status_sel := ''Open'', priority_sel := ''High'',
          assign_sel := ''Unassigned'', new_note := ''called customer''\<rparr>) Save_Changes portal1)))
      = [SYSTEM, USER_NOTE]"
proof -
  let ?w = "blank\<lparr>status_sel := ''Open'', priority_sel := ''High'',
          assign_sel := ''Unassigned'', new_note := ''called customer''\<rparr>"
  have a: "\<not> (status_sel ?w = ''Closed'' \<and> status ticket1 \<noteq> ''Closed'')" by simp
  have d: "priority ticket1 \<in> set priority_opts" by (simp add: ticket1_def priority_opts_def)
  have v: "status_sel ?w = ''Open''" "priority_sel ?w = ''High''"
      "new_note ?w = ''called customer''" "new_assign boss ticket1 ?w = Some ''Unassigned''"
    by (simp_all add: new_assign_def sample_boss)
  have t: "status ticket1 = ''New''" "priority ticket1 = ''Medium''" "assigned_to ticket1 = None"
      "t_id ticket1 = ''1A2B3C4D''"
    by (simp_all add: ticket1_def)
  have s: "tickets portal1 = [ticket1]" "ticket_notes portal1 = []"
      "user_email boss = ''boss@example.com''" "server_time env_up = 7"
    by (simp_all add: portal1_def boss_def env_up_def)
  note th = standard_edit_effects [OF a d, of boss env_up portal1 no_time]
  have c: "changes ticket1 (status_sel ?w) (priority_sel ?w) (new_assign boss ticket1 ?w) =
      [''Status: New '' @ arrow @ '' Open'', ''Priority: Medium '' @ arrow @ '' High'',
       ''Assignee: None '' @ arrow @ '' Unassigned'']"
    using th unfolding v t by simp
  from th have
    "tickets (snd (ticket_popup env_up boss ticket1 ?w Save_Changes portal1))
      = [ticket1\<lparr>status := ''Open'', priority := ''High'', assigned_to := Some ''Unassigned''\<rparr>]"
    and "ticket_notes (snd (ticket_popup env_up boss ticket1 ?w Save_Changes portal1))
      = [\<lparr>ticket_id = ''1A2B3C4D'',
          note_text = gear @ '' SYSTEM: Updated: Status: New '' @ arrow
            @ '' Open, Priority: Medium '' @ arrow
            @ '' High, Assignee: None '' @ arrow @ '' Unassigned'',
          author_email = Some ''boss@example.com'', note_created_at = 7\<rparr>,
         \<lparr>ticket_id = ''1A2B3C4D'', note_text = ''called customer'',
          author_email = Some ''boss@example.com'', note_created_at = 7\<rparr>]"
    and "kinds no_time (appended portal1
          (snd (ticket_popup env_up boss ticket1 ?w Save_Changes portal1)))
      = [SYSTEM, USER_NOTE]"
    unfolding c unfolding v t s by (simp_all add: sample_texts t)
  then show ?thesis using a d by (simp add: gear_def arrow_def)
qed

text \<open>
  C4 as the specification states it asks, for an edit that changes no field and comes
  with a note, for exactly one USER-NOTE entry and no SYSTEM entry, the kind of an entry
  being the one its text gives it. For the note "SYSTEM: rebooted" on a sample ticket
  there is no change description, and the one entry appended is a SYSTEM entry.
\<close>

theorem marked_note_counts_as_system:
  "changes ticket1 (status_sel (blank\<lparr>new_note := ''SYSTEM: rebooted''\<rparr>))
      (priority_sel (blank\<lparr>new_note := ''SYSTEM: rebooted''\<rparr>))
      (new_assign agent ticket1 (blank\<lparr>new_note := ''SYSTEM: rebooted''\<rparr>)) = []
   \<and> new_note (blank\<lparr>new_note := ''SYSTEM: rebooted''\<rparr>) \<noteq> []
   \<and> kinds no_time (appended portal1 (snd (ticket_popup env_up agent ticket1
        (blank\<lparr>new_note := ''SYSTEM: rebooted''\<rparr>) Save_Changes portal1))) = [SYSTEM]
   \<and> count_list (kinds no_time (appended portal1 (snd (ticket_popup env_up agent ticket1
        (blank\<lparr>new_note := ''SYSTEM: rebooted''\<rparr>) Save_Changes portal1)))) USER_NOTE = 0
   \<and> count_list (kinds no_time (appended portal1 (snd (ticket_popup env_up agent ticket1
        (blank\<lparr>new_note := ''SYSTEM: rebooted''\<rparr>) Save_Changes portal1)))) SYSTEM = 1"
proof -
  let ?w = "blank\<lparr>new_note := ''SYSTEM: rebooted''\<rparr>"
  have a: "\<not> (status_sel ?w = ''Closed'' \<and> status ticket1 \<noteq> ''Closed'')"
    by (simp add: blank_def)
  have d: "priority ticket1 \<in> set priority_opts" by (simp add: ticket1_def priority_opts_def)
  have n: "new_assign agent ticket1 ?w = None"
    by (simp add: new_assign_def is_admin_def role_def agent_def ticket1_def)
  have c: "changes ticket1 (status_sel ?w) (priority_sel ?w) (new_assign agent ticket1 ?w) = []"
    unfolding n by (simp add: changes_def blank_def ticket1_def)
  have e: "ticket_notes (snd (ticket_popup env_up agent ticket1 ?w Save_Changes portal1))
      = [\<lparr>ticket_id = t_id ticket1, note_text = ''SYSTEM: rebooted'',
          author_email = Some (user_email agent), note_created_at = server_time env_up\<rparr>]"
    unfolding popup_save [OF a d] save_changes_effects c by (simp add: portal1_def)
  have k: "kinds no_time (appended portal1
            (snd (ticket_popup env_up agent ticket1 ?w Save_Changes portal1))) = [SYSTEM]"
    unfolding appended_def e kinds_def
    by (simp add: portal1_def kind_of_render sample_texts)
  show ?thesis unfolding k using c by simp
qed


lemma send_reply_tickets: "tickets (snd (send_reply e u t m s)) = tickets s"
  by (cases "smtp_ok e") (simp_all add: send_reply_def send_email_def log_activity_def)

lemma same_id_same_row:
  assumes "distinct (map t_id rows)" "t \<in> set rows" "r \<in> set rows" "t_id r = t_id t"
  shows "r = t"
  using assms by (meson distinct_map inj_on_def)


lemma popup_tickets_cases:
  "tickets (snd (ticket_popup e u t w b s)) = tickets s
   \<or> (\<exists>ns. tickets (snd (ticket_popup e u t w b s)) =
        map (\<lambda>r. if t_id r = t_id t
                  then r\<lparr>status := ns, priority := priority_sel w,
                         assigned_to := new_assign u t w\<rparr> else r) (tickets s)
        \<and> (ns = ''Closed'' \<longrightarrow> status t = ''Closed''))
   \<or> (resolution_text w \<noteq> [] \<and> tickets (snd (ticket_popup e u t w b s)) =
        map (\<lambda>r. if t_id r = t_id t
                  then r\<lparr>status := ''Closed'', priority := priority_sel w,
                         assigned_to := new_assign u t w,
                         resolved_at := Some (now_iso e),
                         resolution_summary := Some (resolution_text w)\<rparr> else r) (tickets s))"
proof (cases "priority t \<in> set priority_opts")
  case False
  then show ?thesis by (simp add: ticket_popup_def)
next
  case ok: True
  show ?thesis
  proof (cases b)
    case Send_Email
    then show ?thesis using ok by (simp add: popup_send send_reply_tickets)
  next
    case Save_Changes
    show ?thesis
    proof (cases "status_sel w = ''Closed'' \<and> status t \<noteq> ''Closed''")
      case True
      then show ?thesis using ok Save_Changes by (simp add: ticket_popup_def Let_def)
    next
      case False
      have "tickets (snd (ticket_popup e u t w b s)) =
        map (\<lambda>r. if t_id r = t_id t
                  then r\<lparr>status := status_sel w, priority := priority_sel w,
                         assigned_to := new_assign u t w\<rparr> else r) (tickets s)"
        unfolding Save_Changes popup_save [OF False ok] by (rule save_changes_effects)
      moreover have "status_sel w = ''Closed'' \<longrightarrow> status t = ''Closed''"
        using False by blast
      ultimately show ?thesis by blast
    qed
  next
    case Close_and_Resolve
    show ?thesis
    proof (cases "status_sel w = ''Closed'' \<and> status t \<noteq> ''Closed''")
      case False
      then show ?thesis using ok Close_and_Resolve by (auto simp add: ticket_popup_def Let_def)
    next
      case True
      then have p: "ticket_popup e u t w b s =
         close_and_resolve e u t (priority_sel w) (new_assign u t w) (resolution_text w) s"
        using ok Close_and_Resolve by (simp add: popup_close)
      show ?thesis
      proof (cases "resolution_text w = []")
        case True
        then show ?thesis unfolding p by (simp add: close_and_resolve_def)
      next
        case False
        then show ?thesis unfolding p by (simp add: close_and_resolve_effects)
      qed
    qed
  qed
qed

section \<open>The assignee and actors who are not admins\<close>




section \<open>Authors of the log entries\<close>







section \<open>How an entry is drawn\<close>

text \<open>
  C10. The style of an entry is decided by two substring tests in a fixed order: the
  text contains "SYSTEM:" - system style; otherwise it contains "EMAIL SENT" - e-mail
  style; otherwise the style of a user note. So a note typed by staff whose text contains
  "SYSTEM:" is stored by \<^verbatim>\<open>Save Changes\<close> as the last entry of the log, with the text as
  typed, and is drawn in system style.
\<close>

theorem render_order_and_marked_note:
  "kind_of (render_note fmt n) =
     (if py_in ''SYSTEM:'' (note_text n) then SYSTEM
      else if py_in ''EMAIL SENT'' (note_text n) then EMAIL_OUT else USER_NOTE)
   \<and> (py_in ''SYSTEM:'' (new_note w)
        \<and> \<not> (status_sel w = ''Closed'' \<and> status ticket \<noteq> ''Closed'')
        \<and> priority ticket \<in> set priority_opts \<longrightarrow>
       last (ticket_notes (snd (ticket_popup e u ticket w Save_Changes s)))
         = \<lparr>ticket_id = t_id ticket, note_text = new_note w,
            author_email = Some (user_email u), note_created_at = server_time e\<rparr>
       \<and> kind_of (render_note fmt
            (last (ticket_notes (snd (ticket_popup e u ticket w Save_Changes s))))) = SYSTEM)"
proof -
  have k: "kind_of (render_note fmt n) =
     (if py_in ''SYSTEM:'' (note_text n) then SYSTEM
      else if py_in ''EMAIL SENT'' (note_text n) then EMAIL_OUT else USER_NOTE)" for n
    by (rule kind_of_render)
  have "last (ticket_notes (snd (ticket_popup e u ticket w Save_Changes s)))
         = \<lparr>ticket_id = t_id ticket, note_text = new_note w,
            author_email = Some (user_email u), note_created_at = server_time e\<rparr>"
    if m: "py_in ''SYSTEM:'' (new_note w)"
      and a: "\<not> (status_sel w = ''Closed'' \<and> status ticket \<noteq> ''Closed'')"
      and d: "priority ticket \<in> set priority_opts"
  proof -
    have "new_note w \<noteq> []" using m by (auto simp add: py_in_def)
    then show ?thesis unfolding popup_save [OF a d] save_changes_effects by simp
  qed
  then show ?thesis using k by simp
qed

theorem render_order_and_marked_note_witness:
  "py_in ''SYSTEM:'' (new_note (blank\<lparr>new_note := ''SYSTEM: rebooted''\<rparr>))
   \<and> \<not> (status_sel (blank\<lparr>new_note := ''SYSTEM: rebooted''\<rparr>) = ''Closed'' \<and> status ticket1 \<noteq> ''Closed'')
   \<and> priority ticket1 \<in> set priority_opts
   \<and> kind_of (render_note no_time
        (last (ticket_notes (snd (ticket_popup env_up agent ticket1
           (blank\<lparr>new_note := ''SYSTEM: rebooted''\<rparr>) Save_Changes portal1))))) = SYSTEM
   \<and> note_text (last (ticket_notes (snd (ticket_popup env_up agent ticket1
           (blank\<lparr>new_note := ''SYSTEM: rebooted''\<rparr>) Save_Changes portal1)))) = ''SYSTEM: rebooted''
   \<and> kind_of (render_note no_time \<lparr>ticket_id = ''1A2B3C4D'', note_text = ''EMAIL SENT'',
        author_email = None, note_created_at = 7\<rparr>) = EMAIL_OUT"
proof -
  let ?w = "blank\<lparr>new_note := ''SYSTEM: rebooted''\<rparr>"
  have m: "py_in ''SYSTEM:'' (new_note ?w)"
    using marker_in_text [of "''SYSTEM:''" "[]" "'' rebooted''"] by simp
  have a: "\<not> (status_sel ?w = ''Closed'' \<and> status ticket1 \<noteq> ''Closed'')"
    by (simp add: blank_def)
  have d: "priority ticket1 \<in> set priority_opts" by (simp add: ticket1_def priority_opts_def)
  have x: "\<not> py_in ''SYSTEM:'' ''EMAIL SENT''" "py_in ''EMAIL SENT'' ''EMAIL SENT''"
    unfolding py_in_def by code_simp+
  from render_order_and_marked_note [where fmt = no_time and w = ?w and ticket = ticket1
      and e = env_up and u = agent and s = portal1
      and n = "\<lparr>ticket_id = ''1A2B3C4D'', note_text = ''EMAIL SENT'',
        author_email = None, note_created_at = 7\<rparr>"] m a d
  have "kind_of (render_note no_time \<lparr>ticket_id = ''1A2B3C4D'', note_text = ''EMAIL SENT'',
        author_email = None, note_created_at = 7\<rparr>) = EMAIL_OUT"
    and "last (ticket_notes (snd (ticket_popup env_up agent ticket1 ?w Save_Changes portal1)))
         = \<lparr>ticket_id = t_id ticket1, note_text = new_note ?w,
            author_email = Some (user_email agent), note_created_at = server_time env_up\<rparr>"
    and "kind_of (render_note no_time
            (last (ticket_notes (snd (ticket_popup env_up agent ticket1 ?w Save_Changes portal1))))) = SYSTEM"
    by (simp_all add: x kind_of_render)
  then show ?thesis using m a d by simp
qed

section \<open>Replies to the customer\<close>

lemma send_reply_sent:
  assumes "msg \<noteq> []" "smtp_ok e"
  shows "fst (send_reply e u t msg s) = St_success ''Sent!''"
    and "ticket_notes (snd (send_reply e u t msg s)) = ticket_notes s @
          [\<lparr>ticket_id = t_id t,
            note_text = gear @ '' SYSTEM: '' @ ''EMAIL SENT TO CUSTOMER:'' @ [newline] @ msg,
            author_email = Some (user_email u), note_created_at = server_time e\<rparr>]"
  using assms by (simp_all add: send_reply_def send_email_def log_activity_def)

lemma send_reply_failed:
  assumes "msg \<noteq> []" "\<not> smtp_ok e"
  shows "fst (send_reply e u t msg s) = St_error ''Failed.''"
    and "ticket_notes (snd (send_reply e u t msg s)) = ticket_notes s"
  using assms by (simp_all add: send_reply_def send_email_def)

text \<open>
  C8. A reply with an empty message does nothing. With a message, a delivered reply shows
  "Sent!" and appends exactly one entry holding the whole message after the line
  "EMAIL SENT TO CUSTOMER:"; a reply that is not delivered shows "Failed." and appends
  nothing. The entry is written through \<^verbatim>\<open>log_activity\<close>, so its text begins with the
  gear and "SYSTEM:", and the log draws it in system style: the e-mail style of lines
  177-181 is never chosen for it.
\<close>

theorem reply_logged_in_system_style:
  assumes "priority ticket \<in> set priority_opts"
  shows "(email_body w = [] \<longrightarrow> ticket_popup e u ticket w Send_Email s = (No_feedback, s))
    \<and> (email_body w \<noteq> [] \<and> smtp_ok e \<longrightarrow>
         fst (ticket_popup e u ticket w Send_Email s) = St_success ''Sent!''
         \<and> appended s (snd (ticket_popup e u ticket w Send_Email s)) =
             [\<lparr>ticket_id = t_id ticket,
               note_text = gear @ '' SYSTEM: '' @ ''EMAIL SENT TO CUSTOMER:'' @ [newline]
                           @ email_body w,
               author_email = Some (user_email u), note_created_at = server_time e\<rparr>]
         \<and> map (\<lambda>n. kind_of (render_note fmt n))
               (appended s (snd (ticket_popup e u ticket w Send_Email s))) = [SYSTEM])
    \<and> (email_body w \<noteq> [] \<and> \<not> smtp_ok e \<longrightarrow>
         fst (ticket_popup e u ticket w Send_Email s) = St_error ''Failed.''
         \<and> appended s (snd (ticket_popup e u ticket w Send_Email s)) = [])"
proof -
  note p = popup_send [OF assms]
  have 1: "email_body w = [] \<longrightarrow> ticket_popup e u ticket w Send_Email s = (No_feedback, s)"
    unfolding p by (simp add: send_reply_def)
  have 2: "email_body w \<noteq> [] \<and> smtp_ok e \<longrightarrow>
         fst (ticket_popup e u ticket w Send_Email s) = St_success ''Sent!''
         \<and> appended s (snd (ticket_popup e u ticket w Send_Email s)) =
             [\<lparr>ticket_id = t_id ticket,
               note_text = gear @ '' SYSTEM: '' @ ''EMAIL SENT TO CUSTOMER:'' @ [newline]
                           @ email_body w,
               author_email = Some (user_email u), note_created_at = server_time e\<rparr>]"
    unfolding p appended_def by (simp add: send_reply_sent)
  have 3: "email_body w \<noteq> [] \<and> \<not> smtp_ok e \<longrightarrow>
         fst (ticket_popup e u ticket w Send_Email s) = St_error ''Failed.''
         \<and> appended s (snd (ticket_popup e u ticket w Send_Email s)) = []"
    unfolding p appended_def by (simp add: send_reply_failed)
  have 4: "kind_of (render_note fmt
             \<lparr>ticket_id = t_id ticket,
               note_text = gear @ '' SYSTEM: '' @ ''EMAIL SENT TO CUSTOMER:'' @ [newline]
                           @ email_body w,
               author_email = Some (user_email u), note_created_at = server_time e\<rparr>) = SYSTEM"
    unfolding kind_of_render using marker_in_log_text by simp
  from 1 2 3 4 show ?thesis by simp
qed

theorem reply_logged_in_system_style_witness:
  "priority ticket1 \<in> set priority_opts
   \<and> email_body (blank\<lparr>email_body := ''Hi''\<rparr>) \<noteq> [] \<and> smtp_ok env_up
   \<and> fst (ticket_popup env_up agent ticket1 (blank\<lparr>email_body := ''Hi''\<rparr>) Send_Email portal1)
       = St_success ''Sent!''
   \<and> map note_text (appended portal1
        (snd (ticket_popup env_up agent ticket1 (blank\<lparr>email_body := ''Hi''\<rparr>) Send_Email portal1)))
       = [gear @ '' SYSTEM: EMAIL SENT TO CUSTOMER:'' @ [newline] @ ''Hi'']
   \<and> map (\<lambda>n. kind_of (render_note no_time n)) (appended portal1
        (snd (ticket_popup env_up agent ticket1 (blank\<lparr>email_body := ''Hi''\<rparr>) Send_Email portal1)))
       = [SYSTEM]"
proof -
  have d: "priority ticket1 \<in> set priority_opts" by (simp add: ticket1_def priority_opts_def)
  have b: "email_body (blank\<lparr>email_body := ''Hi''\<rparr>) \<noteq> []" by simp
  have o: "smtp_ok env_up" by (simp add: env_up_def)
  from reply_logged_in_system_style [OF d, of "blank\<lparr>email_body := ''Hi''\<rparr>" env_up agent portal1 no_time]
    b o
  have "fst (ticket_popup env_up agent ticket1 (blank\<lparr>email_body := ''Hi''\<rparr>) Send_Email portal1)
       = St_success ''Sent!''"
    and "appended portal1
        (snd (ticket_popup env_up agent ticket1 (blank\<lparr>email_body := ''Hi''\<rparr>) Send_Email portal1))
       = [\<lparr>ticket_id = t_id ticket1,
               note_text = gear @ '' SYSTEM: '' @ ''EMAIL SENT TO CUSTOMER:'' @ [newline]
                           @ email_body (blank\<lparr>email_body := ''Hi''\<rparr>),
               author_email = Some (user_email agent), note_created_at = server_time env_up\<rparr>]"
    and "map (\<lambda>n. kind_of (render_note no_time n)) (appended portal1
        (snd (ticket_popup env_up agent ticket1 (blank\<lparr>email_body := ''Hi''\<rparr>) Send_Email portal1)))
       = [SYSTEM]"
    by blast+
  then show ?thesis using d b o by simp
qed

section \<open>The dashboard query\<close>

text \<open>
  C6. For a signed-in agent the dashboard query returns exactly the rows whose assignee
  is null or the agent's own e-mail, each as often as it is stored; for an admin it
  returns all rows; in both cases the rows come with \<^verbatim>\<open>created_at\<close> descending.
\<close>

theorem dashboard_rows_and_order:
  "(is_agent (Some u) \<longrightarrow>
      mset (staff_dashboard (Some u) s) =
        mset (filter (\<lambda>r. assigned_to r = None \<or> assigned_to r = Some (user_email u))
               (tickets s)))
   \<and> (is_admin (Some u) \<longrightarrow> mset (staff_dashboard (Some u) s) = mset (tickets s))
   \<and> sorted_wrt (\<lambda>a b. created_at a \<ge> created_at b) (staff_dashboard (Some u) s)"
proof -
  have o: "sorted_wrt (\<lambda>a b. created_at a \<ge> created_at b) (rev (sort_key created_at rows))"
    for rows :: "ticket list"
  proof -
    have "sorted (map created_at (sort_key created_at rows))" by simp
    then have "sorted_wrt (\<lambda>a b. created_at a \<le> created_at b) (sort_key created_at rows)"
      by (simp add: sorted_wrt_map)
    then show ?thesis by (simp add: sorted_wrt_rev)
  qed
  have "\<not> is_agent (Some u)" if "is_admin (Some u)"
    using that by (auto simp add: is_admin_def is_agent_def)
  then show ?thesis
    using o by (auto simp add: staff_dashboard_def ticket_query_def)
qed

theorem dashboard_rows_and_order_witness:
  "is_agent (Some agent) \<and> is_admin (Some boss)
   \<and> staff_dashboard (Some agent) portal2 = [ticket1]
   \<and> staff_dashboard (Some boss) portal2 = [ticket2, ticket1]
   \<and> mset (staff_dashboard (Some agent) portal2) = mset [ticket1]
   \<and> mset (staff_dashboard (Some boss) portal2) = mset [ticket1, ticket2]
   \<and> sorted_wrt (\<lambda>a b. created_at a \<ge> created_at b) (staff_dashboard (Some boss) portal2)"
proof -
  have a: "is_agent (Some agent)" by (simp add: is_agent_def role_def agent_def)
  have b: "is_admin (Some boss)" by (simp add: is_admin_def role_def boss_def)
  have nb: "\<not> is_agent (Some boss)" by (simp add: is_agent_def role_def boss_def)
  have f: "filter (\<lambda>r. assigned_to r = None \<or> assigned_to r = Some (user_email agent))
               (tickets portal2) = [ticket1]"
    by (simp add: portal2_def ticket1_def ticket2_def agent_def)
  have t: "tickets portal2 = [ticket1, ticket2]" by (simp add: portal2_def)
  have c: "created_at ticket1 = 7" "created_at ticket2 = 9"
    by (simp_all add: ticket1_def ticket2_def)
  have da: "staff_dashboard (Some agent) portal2 = [ticket1]"
    using a f by (simp add: staff_dashboard_def ticket_query_def)
  have db: "staff_dashboard (Some boss) portal2 = [ticket2, ticket1]"
    using nb by (simp add: staff_dashboard_def ticket_query_def t c)
  show ?thesis
    using a b dashboard_rows_and_order [of agent portal2] dashboard_rows_and_order [of boss portal2]
    by (simp add: da db f t)
qed

section \<open>The tracking form\<close>

text \<open>
  C7. The check button of the tracking form, for any server-side lookup function and
  any behaviour of the built-ins: when the id or the e-mail is empty it shows "Please
  enter both Ticket ID and Email." and calls nothing; when both are given and
  \<^verbatim>\<open>isdigit\<close> fails on the id (in upper case) it shows "Ticket ID must be a number." and
  calls nothing; when \<^verbatim>\<open>int\<close> gives a number it makes one lookup with it, and whenever
  the lookup returns no row it shows the one warning "No ticket found for that ID and
  email.", the same whichever of the two failed to match. When \<^verbatim>\<open>isdigit\<close> holds and
  \<^verbatim>\<open>int\<close> raises, the page ends in the uncaught \<^verbatim>\<open>ValueError\<close>: neither of the two
  errors nor the warning is shown. The guard of line 265 is there to keep \<^verbatim>\<open>int\<close> from
  raising, and misses the texts \<^verbatim>\<open>isdigit\<close> accepts and \<^verbatim>\<open>int\<close> rejects.
\<close>

theorem tracking_form:
  "(str_upper py id_input = [] \<or> tem = [] \<longrightarrow>
      track_ticket py rpc id_input tem
        = (Track_error ''Please enter both Ticket ID and Email.'', []))
   \<and> (str_upper py id_input \<noteq> [] \<and> tem \<noteq> [] \<and> \<not> str_isdigit py (str_upper py id_input) \<longrightarrow>
      track_ticket py rpc id_input tem = (Track_error ''Ticket ID must be a number.'', []))
   \<and> (str_upper py id_input \<noteq> [] \<and> tem \<noteq> [] \<and> str_isdigit py (str_upper py id_input)
        \<and> str_int py (str_upper py id_input) = None \<longrightarrow>
      track_ticket py rpc id_input tem = (Track_raised ValueError, []))
   \<and> (str_upper py id_input \<noteq> [] \<and> tem \<noteq> [] \<and> str_isdigit py (str_upper py id_input)
        \<and> str_int py (str_upper py id_input) = Some n \<longrightarrow>
      snd (track_ticket py rpc id_input tem) = [(n, tem)]
      \<and> (rpc n tem = [] \<longrightarrow>
           fst (track_ticket py rpc id_input tem)
             = Track_warning ''No ticket found for that ID and email.''))"
  by (auto simp add: track_ticket_def Let_def split: list.splits)

lemma sample_ids:
  "upper ''42'' = ''42''" "upper ''99'' = ''99''" "upper ''4a'' = ''4A''"
  "upper superscript_two = superscript_two"
  "ascii_digits ''42''" "ascii_digits ''99''" "\<not> ascii_digits ''4A''"
  "\<not> ascii_digits superscript_two"
  "decimal_value ''42'' = 42" "decimal_value ''99'' = 99"
  "upper [] = []" "''4A'' \<noteq> superscript_two"
  by code_simp+

lemma sample_builtins_answers:
  "str_upper sample_builtins ''42'' = ''42''" "str_upper sample_builtins ''99'' = ''99''"
  "str_upper sample_builtins ''4a'' = ''4A''" "str_upper sample_builtins [] = []"
  "str_upper sample_builtins superscript_two = superscript_two"
  "str_isdigit sample_builtins ''42''" "str_isdigit sample_builtins ''99''"
  "\<not> str_isdigit sample_builtins ''4A''" "str_isdigit sample_builtins superscript_two"
  "str_int sample_builtins ''42'' = Some 42" "str_int sample_builtins ''99'' = Some 99"
  "str_int sample_builtins superscript_two = None"
  by (simp_all add: sample_builtins_def sample_ids)

theorem tracking_form_witness:
  "track_ticket sample_builtins demo_lookup ''42'' ''a@x.com''
     = (Track_shown ''**Status:** New'' None, [(42, ''a@x.com'')])
   \<and> track_ticket sample_builtins demo_lookup ''42'' ''wrong@x.com''
     = (Track_warning ''No ticket found for that ID and email.'', [(42, ''wrong@x.com'')])
   \<and> track_ticket sample_builtins demo_lookup ''99'' ''a@x.com''
     = (Track_warning ''No ticket found for that ID and email.'', [(99, ''a@x.com'')])
   \<and> track_ticket sample_builtins demo_lookup ''4a'' ''a@x.com''
     = (Track_error ''Ticket ID must be a number.'', [])
   \<and> track_ticket sample_builtins demo_lookup [] ''a@x.com''
     = (Track_error ''Please enter both Ticket ID and Email.'', [])
   \<and> str_isdigit sample_builtins (str_upper sample_builtins superscript_two)
   \<and> track_ticket sample_builtins demo_lookup superscript_two ''a@x.com''
     = (Track_raised ValueError, [])"
proof -
  have ne: "superscript_two \<noteq> []" by (simp add: superscript_two_def)
  have 1: "track_ticket sample_builtins demo_lookup ''42'' ''a@x.com''
     = (Track_shown ''**Status:** New'' None, [(42, ''a@x.com'')])"
    by (simp add: track_ticket_def sample_builtins_answers demo_lookup_def)
  have 2: "track_ticket sample_builtins demo_lookup ''42'' ''wrong@x.com''
     = (Track_warning ''No ticket found for that ID and email.'', [(42, ''wrong@x.com'')])"
    using tracking_form [of sample_builtins "''42''" "''wrong@x.com''" demo_lookup 42]
    by (simp add: sample_builtins_answers demo_lookup_def prod_eq_iff)
  have 3: "track_ticket sample_builtins demo_lookup ''99'' ''a@x.com''
     = (Track_warning ''No ticket found for that ID and email.'', [(99, ''a@x.com'')])"
    using tracking_form [of sample_builtins "''99''" "''a@x.com''" demo_lookup 99]
    by (simp add: sample_builtins_answers demo_lookup_def prod_eq_iff)
  have 4: "track_ticket sample_builtins demo_lookup ''4a'' ''a@x.com''
     = (Track_error ''Ticket ID must be a number.'', [])"
    using tracking_form [of sample_builtins "''4a''" "''a@x.com''" demo_lookup 0]
    by (simp add: sample_builtins_answers)
  have 5: "track_ticket sample_builtins demo_lookup [] ''a@x.com''
     = (Track_error ''Please enter both Ticket ID and Email.'', [])"
    using tracking_form [of sample_builtins "[]" "''a@x.com''" demo_lookup 0]
    by (simp add: sample_builtins_answers)
  have 6: "track_ticket sample_builtins demo_lookup superscript_two ''a@x.com''
     = (Track_raised ValueError, [])"
    using tracking_form [of sample_builtins superscript_two "''a@x.com''" demo_lookup 0] ne
    by (simp add: sample_builtins_answers)
  have 7: "str_isdigit sample_builtins (str_upper sample_builtins superscript_two)"
    by (simp add: sample_builtins_answers)
  from 1 2 3 4 5 6 7 show ?thesis by blast
qed


section \<open>Closed tickets along the runs of the portal\<close>

lemma popup_keeps_ids:
  "map t_id (tickets (snd (ticket_popup e u t w b s))) = map t_id (tickets s)"
proof -
  have k: "map t_id (map (\<lambda>r. if t_id r = t_id t then f r else r) rows) = map t_id rows"
    if "\<And>r. t_id (f r) = t_id r" for f and rows :: "ticket list"
    using that by (induction rows) simp_all
  from popup_tickets_cases [of e u t w b s] show ?thesis
  proof (elim disjE exE conjE)
    assume "tickets (snd (ticket_popup e u t w b s)) = tickets s"
    then show ?thesis by simp
  next
    fix ns
    assume eq: "tickets (snd (ticket_popup e u t w b s)) =
        map (\<lambda>r. if t_id r = t_id t
                  then r\<lparr>status := ns, priority := priority_sel w,
                         assigned_to := new_assign u t w\<rparr> else r) (tickets s)"
    show ?thesis unfolding eq by (rule k) simp
  next
    assume eq: "tickets (snd (ticket_popup e u t w b s)) =
        map (\<lambda>r. if t_id r = t_id t
                  then r\<lparr>status := ''Closed'', priority := priority_sel w,
                         assigned_to := new_assign u t w,
                         resolved_at := Some (now_iso e),
                         resolution_summary := Some (resolution_text w)\<rparr> else r) (tickets s)"
    show ?thesis unfolding eq by (rule k) simp
  qed
qed

lemma popup_keeps_closed_resolved:
  assumes d: "distinct (map t_id (tickets s))" and m: "t \<in> set (tickets s)"
    and i: "\<forall>r\<in>set (tickets s). status r = ''Closed'' \<longrightarrow> resolved r"
  shows "\<forall>r\<in>set (tickets (snd (ticket_popup e u t w b s))). status r = ''Closed'' \<longrightarrow> resolved r"
proof -
  from popup_tickets_cases [of e u t w b s] show ?thesis
  proof (elim disjE exE conjE)
    assume "tickets (snd (ticket_popup e u t w b s)) = tickets s"
    then show ?thesis using i by simp
  next
    fix ns
    assume eq: "tickets (snd (ticket_popup e u t w b s)) =
        map (\<lambda>r. if t_id r = t_id t
                  then r\<lparr>status := ns, priority := priority_sel w,
                         assigned_to := new_assign u t w\<rparr> else r) (tickets s)"
      and c: "ns = ''Closed'' \<longrightarrow> status t = ''Closed''"
    show ?thesis unfolding eq
    proof (intro ballI impI)
      fix r
      assume "r \<in> set (map (\<lambda>r. if t_id r = t_id t
                  then r\<lparr>status := ns, priority := priority_sel w,
                         assigned_to := new_assign u t w\<rparr> else r) (tickets s))"
        and cl: "status r = ''Closed''"
      then obtain r0 where r0: "r0 \<in> set (tickets s)"
        and r: "r = (if t_id r0 = t_id t
                  then r0\<lparr>status := ns, priority := priority_sel w,
                         assigned_to := new_assign u t w\<rparr> else r0)"
        by auto
      show "resolved r"
      proof (cases "t_id r0 = t_id t")
        case True
        then have "r0 = t" using same_id_same_row [OF d m r0] by simp
        moreover have "ns = ''Closed''" using r cl True by simp
        ultimately have "resolved r0" using i m c by blast
        then show ?thesis using r True by (simp add: resolved_def)
      next
        case False
        then show ?thesis using r cl r0 i by simp
      qed
    qed
  next
    assume n: "resolution_text w \<noteq> []"
      and eq: "tickets (snd (ticket_popup e u t w b s)) =
        map (\<lambda>r. if t_id r = t_id t
                  then r\<lparr>status := ''Closed'', priority := priority_sel w,
                         assigned_to := new_assign u t w,
                         resolved_at := Some (now_iso e),
                         resolution_summary := Some (resolution_text w)\<rparr> else r) (tickets s)"
    show ?thesis unfolding eq using i n by (auto simp add: resolved_def)
  qed
qed

lemma dashboard_rows_stored: "set (staff_dashboard session s) \<subseteq> set (tickets s)"
  by (auto simp add: staff_dashboard_def ticket_query_def split: option.splits if_splits)

lemma new_ticket_tickets:
  "tickets (snd (new_ticket e name em cat pri msg s)) =
     tickets s @
       [\<lparr>t_id = upper (take 8 (uuid4 e)), customer_name = name, email = em, description = msg,
         attachment_url = None, priority = pri, category = cat,
         status = ''New'', assigned_to = None, created_at = server_time e,
         resolved_at = None, resolution_summary = None\<rparr>]"
  by (simp add: new_ticket_def Let_def effects)

lemma step_keeps_closed_resolved:
  assumes "step e a s = Some s'"
    and "distinct (map t_id (tickets s) @ new_ids [(e, a)])"
    and "\<forall>r\<in>set (tickets s). status r = ''Closed'' \<longrightarrow> resolved r"
  shows "map t_id (tickets s') = map t_id (tickets s) @ new_ids [(e, a)]
    \<and> (\<forall>r\<in>set (tickets s'). status r = ''Closed'' \<longrightarrow> resolved r)"
proof (cases a)
  case (Submit name em cat pri msg)
  then have "s' = snd (new_ticket e name em cat pri msg s)"
    using assms(1) by (simp split: if_splits)
  then show ?thesis using assms(3) Submit by (simp add: new_ticket_tickets)
next
  case (Manage u idx w b)
  then have i: "idx < length (staff_dashboard (Some u) s)"
    and s': "s' = snd (ticket_popup e u (staff_dashboard (Some u) s ! idx) w b s)"
    using assms(1) by (simp_all add: Let_def split: if_splits)
  have m: "staff_dashboard (Some u) s ! idx \<in> set (tickets s)"
    using i dashboard_rows_stored nth_mem by blast
  have d: "distinct (map t_id (tickets s))" using assms(2) by simp
  show ?thesis
    unfolding s' using popup_keeps_closed_resolved [OF d m assms(3)] Manage
    by (simp add: popup_keeps_ids)
qed

lemma new_ids_Cons: "new_ids (x # rest) = new_ids [x] @ new_ids rest"
proof -
  obtain e a where "x = (e, a)" by (cases x)
  then show ?thesis by (cases a) simp_all
qed

lemma run_keeps_closed_resolved:
  assumes "run acts s = Some s'"
    and "distinct (map t_id (tickets s) @ new_ids acts)"
    and "\<forall>r\<in>set (tickets s). status r = ''Closed'' \<longrightarrow> resolved r"
  shows "\<forall>r\<in>set (tickets s'). status r = ''Closed'' \<longrightarrow> resolved r"
  using assms
proof (induction acts arbitrary: s)
  case Nil
  then show ?case by simp
next
  case (Cons x rest)
  obtain e a where x: "x = (e, a)" by (cases x)
  from Cons.prems(1) obtain s1 where s1: "step e a s = Some s1" and r: "run rest s1 = Some s'"
    unfolding x by (auto split: option.splits)
  have d: "distinct (map t_id (tickets s) @ new_ids [(e, a)] @ new_ids rest)"
    using Cons.prems(2) new_ids_Cons [of x rest] x by simp
  then have d1: "distinct (map t_id (tickets s) @ new_ids [(e, a)])" by auto
  note st = step_keeps_closed_resolved [OF s1 d1 Cons.prems(3)]
  have "distinct (map t_id (tickets s1) @ new_ids rest)" using st d by auto
  then show ?case using Cons.IH [OF r] st by blast
qed

text \<open>
  C1, as amended. Start from the empty tables and let visitors submit tickets and staff
  use the dialog on rows of the dashboard, the submitted tickets getting distinct ids.
  Then every stored ticket whose status is Closed has a non-empty resolution summary and
  a resolution timestamp. The converse is not claimed: \<^verbatim>\<open>Save Changes\<close> writes any
  status over a Closed ticket and leaves the two resolution columns as they are.
\<close>

theorem closed_tickets_are_resolved:
  assumes "run acts empty_portal = Some s" and "distinct (new_ids acts)"
    and "t \<in> set (tickets s)" and "status t = ''Closed''"
  shows "resolved t"
proof -
  have "distinct (map t_id (tickets empty_portal) @ new_ids acts)"
    using assms(2) by (simp add: empty_portal_def)
  moreover have "\<forall>r\<in>set (tickets empty_portal). status r = ''Closed'' \<longrightarrow> resolved r"
    by (simp add: empty_portal_def)
  ultimately show ?thesis
    using run_keeps_closed_resolved [OF assms(1)] assms(3,4) by blast
qed


lemma sample_submit:
  "step env_up submit_ann empty_portal
     = Some (snd (new_ticket env_up ''Ann'' ''a@x.com'' ''Data'' ''Medium'' ''help'' empty_portal))"
  "tickets (snd (new_ticket env_up ''Ann'' ''a@x.com'' ''Data'' ''Medium'' ''help'' empty_portal))
     = [ticket1]"
proof -
  show "step env_up submit_ann empty_portal
     = Some (snd (new_ticket env_up ''Ann'' ''a@x.com'' ''Data'' ''Medium'' ''help'' empty_portal))"
    by (simp add: submit_ann_def priority_opts_def)
  have "upper (take 8 ''1a2b3c4d-0000-4000-8000-000000000000'') = ''1A2B3C4D''"
    by code_simp
  then show "tickets (snd (new_ticket env_up ''Ann'' ''a@x.com'' ''Data'' ''Medium'' ''help'' empty_portal))
     = [ticket1]"
    by (simp add: new_ticket_tickets empty_portal_def env_up_def ticket1_def)
qed

lemma sample_agent: "is_staff (Some agent)" "is_agent (Some agent)" "\<not> is_admin (Some agent)"
  by (simp_all add: is_staff_def is_agent_def is_admin_def role_def agent_def)

lemma sample_manage:
  assumes "tickets s = [t]" and "assigned_to t = None"
    and "status_sel w \<in> set status_opts" and "priority_sel w \<in> set priority_opts"
  shows "step e (Manage agent 0 w b) s = Some (snd (ticket_popup e agent t w b s))"
proof -
  have "staff_dashboard (Some agent) s = [t]"
    using assms(1,2) by (simp add: staff_dashboard_def ticket_query_def sample_agent)
  moreover have "selectable agent s w"
    using assms(3,4) by (simp add: selectable_def sample_agent)
  ultimately show ?thesis by (simp add: sample_agent)
qed

lemma sample_close:
  assumes "tickets s = [ticket1]"
  shows "tickets (snd (ticket_popup env_up agent ticket1
           (blank\<lparr>status_sel := ''Closed'', resolution_text := ''fixed''\<rparr>) Close_and_Resolve s))
         = [ticket1_closed]"
proof -
  let ?w = "blank\<lparr>status_sel := ''Closed'', resolution_text := ''fixed''\<rparr>"
  have a: "status ticket1 \<noteq> ''Closed''" by (simp add: ticket1_def)
  have b: "status_sel ?w = ''Closed''" by simp
  have c: "resolution_text ?w \<noteq> []" by simp
  have d: "priority ticket1 \<in> set priority_opts" by (simp add: ticket1_def priority_opts_def)
  have n: "new_assign agent ticket1 ?w = None"
    by (simp add: new_assign_def sample_agent ticket1_def)
  show ?thesis
    unfolding popup_close [OF a b d] close_and_resolve_effects(2) [OF c] n assms
    by (simp add: ticket1_closed_def ticket1_def blank_def env_up_def)
qed

lemma sample_reopen:
  assumes "tickets s = [ticket1_closed]"
  shows "tickets (snd (ticket_popup env_up agent ticket1_closed
           (blank\<lparr>status_sel := ''Open''\<rparr>) Save_Changes s))
         = [ticket1_reopened]"
proof -
  let ?w = "blank\<lparr>status_sel := ''Open''\<rparr>"
  have a: "\<not> (status_sel ?w = ''Closed'' \<and> status ticket1_closed \<noteq> ''Closed'')" by simp
  have d: "priority ticket1_closed \<in> set priority_opts"
    by (simp add: ticket1_closed_def ticket1_def priority_opts_def)
  have n: "new_assign agent ticket1_closed ?w = None"
    by (simp add: new_assign_def sample_agent ticket1_closed_def ticket1_def)
  show ?thesis
    unfolding popup_save [OF a d] save_changes_effects n assms
    by (simp add: ticket1_reopened_def ticket1_closed_def ticket1_def blank_def)
qed

lemma sample_run_closed: "map_option tickets (run close_run empty_portal) = Some [ticket1_closed]"
proof -
  let ?wc = "blank\<lparr>status_sel := ''Closed'', resolution_text := ''fixed''\<rparr>"
  have 2: "step env_up (Manage agent 0 ?wc Close_and_Resolve)
             (snd (new_ticket env_up ''Ann'' ''a@x.com'' ''Data'' ''Medium'' ''help'' empty_portal))
           = Some (snd (ticket_popup env_up agent ticket1 ?wc Close_and_Resolve
               (snd (new_ticket env_up ''Ann'' ''a@x.com'' ''Data'' ''Medium'' ''help'' empty_portal))))"
    by (rule sample_manage [OF sample_submit(2)])
       (simp_all add: ticket1_def blank_def status_opts_def priority_opts_def)
  show ?thesis
    by (simp add: close_run_def reopen_run_def sample_submit(1) 2 sample_close [OF sample_submit(2)]
          del: step.simps)
qed

lemma sample_run_reopened:
  "map_option tickets (run reopen_run empty_portal) = Some [ticket1_reopened]"
proof -
  let ?wc = "blank\<lparr>status_sel := ''Closed'', resolution_text := ''fixed''\<rparr>"
  let ?wo = "blank\<lparr>status_sel := ''Open''\<rparr>"
  let ?s1 = "snd (new_ticket env_up ''Ann'' ''a@x.com'' ''Data'' ''Medium'' ''help'' empty_portal)"
  let ?s2 = "snd (ticket_popup env_up agent ticket1 ?wc Close_and_Resolve ?s1)"
  have 2: "step env_up (Manage agent 0 ?wc Close_and_Resolve) ?s1 = Some ?s2"
    by (rule sample_manage [OF sample_submit(2)])
       (simp_all add: ticket1_def blank_def status_opts_def priority_opts_def)
  have t2: "tickets ?s2 = [ticket1_closed]" by (rule sample_close [OF sample_submit(2)])
  have 3: "step env_up (Manage agent 0 ?wo Save_Changes) ?s2
      = Some (snd (ticket_popup env_up agent ticket1_closed ?wo Save_Changes ?s2))"
    by (rule sample_manage [OF t2])
       (simp_all add: ticket1_closed_def ticket1_def blank_def status_opts_def priority_opts_def)
  show ?thesis
    by (simp add: reopen_run_def sample_submit(1) 2 3 sample_reopen [OF t2] del: step.simps)
qed

theorem closed_tickets_are_resolved_witness:
  "map_option tickets (run close_run empty_portal) = Some [ticket1_closed]
   \<and> distinct (new_ids close_run) \<and> status ticket1_closed = ''Closed''
   \<and> resolved ticket1_closed"
proof -
  obtain s where s: "run close_run empty_portal = Some s" and t: "tickets s = [ticket1_closed]"
    using sample_run_closed by auto
  have d: "distinct (new_ids close_run)"
    by (simp add: close_run_def reopen_run_def submit_ann_def)
  have m: "ticket1_closed \<in> set (tickets s)" by (simp add: t)
  have c: "status ticket1_closed = ''Closed''" by (simp add: ticket1_closed_def)
  show ?thesis
    using closed_tickets_are_resolved [OF s d m c] sample_run_closed d c by simp
qed

text \<open>
  C1 as the specification states it asks for the equivalence. A run of three actions
  the pages offer - a visitor submits a ticket, an agent closes it with the resolution
  "fixed", the agent saves it with status Open - ends with one stored ticket whose
  status is Open while its resolution summary and timestamp are set.
\<close>

theorem reopened_ticket_breaks_equivalence:
  "map_option tickets (run reopen_run empty_portal) = Some [ticket1_reopened]
   \<and> status ticket1_reopened = ''Open'' \<and> resolved ticket1_reopened
   \<and> \<not> closed_iff_resolved ticket1_reopened"
proof -
  have "status ticket1_reopened = ''Open''" and "resolved ticket1_reopened"
    by (simp_all add: ticket1_reopened_def ticket1_closed_def resolved_def)
  then show ?thesis
    using sample_run_reopened by (simp add: closed_iff_resolved_def)
qed

section \<open>Stored priorities along the runs\<close>

text \<open>
  The dialog opens on every ticket a run from the empty tables can store: its priority
  is one of the three options, since the form and the select box offer no other.
\<close>

lemma popup_keeps_priorities:
  assumes "priority_sel w \<in> set priority_opts"
    and "\<forall>r\<in>set (tickets s). priority r \<in> set priority_opts"
  shows "\<forall>r\<in>set (tickets (snd (ticket_popup e u t w b s))). priority r \<in> set priority_opts"
  using popup_tickets_cases [of e u t w b s] assms by (elim disjE exE conjE) auto

lemma run_keeps_priorities:
  assumes "run acts s = Some s'"
    and "\<forall>r\<in>set (tickets s). priority r \<in> set priority_opts"
  shows "\<forall>r\<in>set (tickets s'). priority r \<in> set priority_opts"
  using assms
proof (induction acts arbitrary: s)
  case Nil
  then show ?case by simp
next
  case (Cons x rest)
  obtain e a where x: "x = (e, a)" by (cases x)
  from Cons.prems(1) obtain s1 where s1: "step e a s = Some s1" and r: "run rest s1 = Some s'"
    unfolding x by (auto split: option.splits)
  have "\<forall>r\<in>set (tickets s1). priority r \<in> set priority_opts"
  proof (cases a)
    case (Submit name em cat pri msg)
    then have "pri \<in> set priority_opts" and "s1 = snd (new_ticket e name em cat pri msg s)"
      using s1 by (simp_all split: if_splits)
    then show ?thesis using Cons.prems(2) by (simp add: new_ticket_tickets)
  next
    case (Manage u idx w b)
    then have sel: "selectable u s w"
      and eq: "s1 = snd (ticket_popup e u (staff_dashboard (Some u) s ! idx) w b s)"
      using s1 by (simp_all add: Let_def split: if_splits)
    have p: "priority_sel w \<in> set priority_opts" using sel by (simp add: selectable_def)
    show ?thesis unfolding eq by (rule popup_keeps_priorities [OF p Cons.prems(2)])
  qed
  then show ?case using Cons.IH [OF r] by blast
qed

end
